theory Spec2Isabelle
  imports Main "HOL-Library.Sublist"
begin

section \<open>JavaScript strings: split, join, replace\<close>

text \<open>
  \<^verbatim>\<open>String.prototype.split(sep)\<close> with a non-empty separator scans from the left and cuts
  at every leftmost, non-overlapping occurrence of \<open>sep\<close>. The result is never empty:
  a string without the separator splits into itself.
\<close>

function split_sep :: "string \<Rightarrow> string \<Rightarrow> string list" where
  "split_sep sep [] = [[]]"
| "split_sep sep (c # cs) =
     (if sep \<noteq> [] \<and> prefix sep (c # cs)
      then [] # split_sep sep (drop (length sep) (c # cs))
      else (case split_sep sep cs of
              [] \<Rightarrow> [[c]]
            | p # ps \<Rightarrow> (c # p) # ps))"
  by pat_completeness auto
termination
  by (relation "measure (\<lambda>(sep, s). length s)") (auto simp: neq_Nil_conv)

text \<open>With the empty separator JavaScript splits into single characters.\<close>

definition js_split :: "string \<Rightarrow> string \<Rightarrow> string list" where
  "js_split sep s = (if sep = [] then map (\<lambda>c. [c]) s else split_sep sep s)"

text \<open>\<^verbatim>\<open>Array.prototype.join(sep)\<close> on an array of strings.\<close>

fun js_join :: "string \<Rightarrow> string list \<Rightarrow> string" where
  "js_join sep [] = []"
| "js_join sep [p] = p"
| "js_join sep (p # q # ps) = p @ sep @ js_join sep (q # ps)"

text \<open>
  \<^verbatim>\<open>s.replace(a, b)\<close> with string arguments replaces the first occurrence only; the
  resolver calls it with the one-character strings \<^verbatim>\<open>'_'\<close> and \<^verbatim>\<open>' '\<close>.
\<close>

fun replace_first :: "char \<Rightarrow> char \<Rightarrow> string \<Rightarrow> string" where
  "replace_first a b [] = []"
| "replace_first a b (c # cs) = (if c = a then b # cs else c # replace_first a b cs)"

text \<open>\<^verbatim>\<open>a || b\<close> on strings: the empty string is the only falsy string.\<close>

definition js_or :: "string \<Rightarrow> string \<Rightarrow> string" where
  "js_or a b = (if a \<noteq> [] then a else b)"

section \<open>breakQuery (schema.ts)\<close>

definition operators :: "string list" where
  "operators = [''eq'', ''neq'', ''like'', ''in'', ''<'', ''>'']"

text \<open>
  \<^verbatim>\<open>parts = query.split(' ')\<close>; when \<^verbatim>\<open>parts[0]\<close> is no operator the result is
  \<^verbatim>\<open>['eq', query]\<close>, otherwise \<^verbatim>\<open>parts.shift()\<close> and the rest joined by a space.
  The two-element array is a pair.
\<close>

definition breakQuery :: "string \<Rightarrow> string \<times> string" where
  "breakQuery query =
     (let parts = js_split '' '' query in
      case parts of
        [] \<Rightarrow> (''eq'', query)
      | p # ps \<Rightarrow> if p \<notin> set operators then (''eq'', query) else (p, js_join '' '' ps))"

text \<open>
  The specification's wording, for comparison with the code: the first
  whitespace-delimited token of a string, whitespace being space, tab, line feed, vertical
  tab, form feed and carriage return.
\<close>

definition is_whitespace :: "char \<Rightarrow> bool" where
  "is_whitespace c = (c \<in> set [CHR '' '', CHR 0x09, CHR 0x0A, CHR 0x0B, CHR 0x0C, CHR 0x0D])"

definition spec_first_token :: "string \<Rightarrow> string" where
  "spec_first_token q = takeWhile (\<lambda>c. \<not> is_whitespace c) q"

definition spec_remainder :: "string \<Rightarrow> string" where
  "spec_remainder q = drop (Suc (length (spec_first_token q))) q"

section \<open>The schema generator (schema.ts, ForContainer)\<close>

subsection \<open>Ontology objects\<close>

text \<open>
  The domain classes \<^verbatim>\<open>Metatype\<close>, \<^verbatim>\<open>MetatypeKey\<close> and \<^verbatim>\<open>MetatypeRelationshipPair\<close>
  are used through the fields below. \<^verbatim>\<open>keys\<close> and \<^verbatim>\<open>options\<close> are optional in the source
  (\<^verbatim>\<open>metatype.keys?.forEach\<close>, \<^verbatim>\<open>if (metatypeKey.options)\<close>).
\<close>

record metatype_key =
  mk_name :: string
  mk_property_name :: string
  mk_data_type :: string
  mk_options :: "string list option"

record metatype =
  mt_id :: string
  mt_name :: string
  mt_description :: string
  mt_keys :: "metatype_key list option"


subsection \<open>Schema types\<close>

datatype gql_type =
    GraphQLString
  | GraphQLFloat
  | GraphQLBoolean
  | GraphQLInt
  | GraphQLJSON
  | GraphQLList gql_type
  | GraphQLEnumType string "string \<rightharpoonup> string"
  | GraphQLObjectType string
  | GraphQLInputObjectType string

text \<open>
  \<^verbatim>\<open>enumMap[option] = {value: option}\<close> for every option: an object from option to its
  value.
\<close>

definition enumMap :: "string list option \<Rightarrow> (string \<rightharpoonup> string)" where
  "enumMap opts =
     (case opts of
        None \<Rightarrow> Map.empty
      | Some os \<Rightarrow> fold (\<lambda>opt m. m(opt \<mapsto> opt)) os Map.empty)"

text \<open>
  The third label of both switches is the expression \<^verbatim>\<open>'string' || 'date' || 'file'\<close>,
  evaluated once to a single string.
\<close>

definition string_case_label :: string where
  "string_case_label = js_or (js_or ''string'' ''date'') ''file''"

text \<open>
  The switch over \<^verbatim>\<open>metatypeKey.data_type\<close> in the output object type of a metatype. The
  sanitizer \<^verbatim>\<open>stringToValidPropertyName\<close> lives in \<^verbatim>\<open>services/utilities\<close>, outside these
  sources, and is the parameter \<open>san\<close> throughout.
\<close>

definition outputFieldType :: "(string \<Rightarrow> string) \<Rightarrow> metatype \<Rightarrow> metatype_key \<Rightarrow> gql_type" where
  "outputFieldType san m k =
     (let dt = mk_data_type k in
      if dt = ''number'' then GraphQLFloat
      else if dt = ''boolean'' then GraphQLBoolean
      else if dt = string_case_label then GraphQLString
      else if dt = ''list'' then GraphQLList GraphQLJSON
      else if dt = ''enumeration''
        then GraphQLEnumType (san (mt_name m @ ''_'' @ mk_name k @ ''_Enum_TypeA''))
               (enumMap (mk_options k))
      else GraphQLString)"

text \<open>The same switch in \<^verbatim>\<open>inputFieldsForMetatype\<close>; only the enum's name differs.\<close>

definition inputFieldType :: "(string \<Rightarrow> string) \<Rightarrow> metatype \<Rightarrow> metatype_key \<Rightarrow> gql_type" where
  "inputFieldType san m k =
     (let dt = mk_data_type k in
      if dt = ''number'' then GraphQLFloat
      else if dt = ''boolean'' then GraphQLBoolean
      else if dt = string_case_label then GraphQLString
      else if dt = ''list'' then GraphQLList GraphQLJSON
      else if dt = ''enumeration''
        then GraphQLEnumType (san (mt_name m @ ''_'' @ mk_name k @ ''_Enum_Type_B''))
               (enumMap (mk_options k))
      else GraphQLString)"

definition keys_of :: "metatype \<Rightarrow> metatype_key list" where
  "keys_of m = (case mt_keys m of None \<Rightarrow> [] | Some ks \<Rightarrow> ks)"

text \<open>
  \<^verbatim>\<open>fields[propertyName] = {type: ...}\<close> for every key in order: a later key with the same
  sanitized property name overwrites an earlier one.
\<close>

definition inputFieldsForMetatype :: "(string \<Rightarrow> string) \<Rightarrow> metatype \<Rightarrow> (string \<rightharpoonup> gql_type)" where
  "inputFieldsForMetatype san m =
     fold (\<lambda>k fields. fields(san (mk_property_name k) \<mapsto> inputFieldType san m k))
       (keys_of m) Map.empty"

text \<open>
  The \<^verbatim>\<open>fields\<close> thunk of a metatype's object type: \<^verbatim>\<open>_record\<close> and \<^verbatim>\<open>_relationship\<close>
  first, then one field per key.
\<close>

definition outputFields :: "(string \<Rightarrow> string) \<Rightarrow> metatype \<Rightarrow> (string \<rightharpoonup> gql_type)" where
  "outputFields san m =
     fold (\<lambda>k output. output(san (mk_property_name k) \<mapsto> outputFieldType san m k))
       (keys_of m)
       [''_record'' \<mapsto> GraphQLObjectType ''recordInfo'',
        ''_relationship'' \<mapsto> GraphQLObjectType (mt_name m @ ''_relationshipInfo'')]"

text \<open>
  The \<^verbatim>\<open>args\<close> of a metatype's query field: the spread of the input fields, then the two
  reserved arguments, which win over a key of the same name.
\<close>

definition fieldArgs :: "(string \<Rightarrow> string) \<Rightarrow> metatype \<Rightarrow> (string \<rightharpoonup> gql_type)" where
  "fieldArgs san m =
     (inputFieldsForMetatype san m)
       (''_record'' \<mapsto> GraphQLInputObjectType ''record_input'',
        ''_relationship'' \<mapsto> GraphQLInputObjectType (mt_name m @ ''_relationship_input''))"

subsection \<open>Grouping the relationship pairs\<close>








section \<open>The query resolver (schema.ts, resolverForMetatype)\<close>

subsection \<open>Values and errors\<close>

text \<open>
  The JSON values that reach the resolver as \<^verbatim>\<open>original_id\<close> (declared
  \<^verbatim>\<open>GraphQLJSON\<close>) and as property arguments. Numbers are the integers; a non-integer
  float is outside the model.
\<close>

datatype jsval =
    JUndefined
  | JNull
  | JBool bool
  | JNum int
  | JStr string
  | JArr "jsval list"
  | JObj "(string \<times> jsval) list"

datatype js_error = TypeError | Thrown string

text \<open>Truthiness, as \<^verbatim>\<open>if (v)\<close> tests it.\<close>

fun truthy :: "jsval \<Rightarrow> bool" where
  "truthy JUndefined = False"
| "truthy JNull = False"
| "truthy (JBool b) = b"
| "truthy (JNum n) = (n \<noteq> 0)"
| "truthy (JStr s) = (s \<noteq> [])"
| "truthy (JArr _) = True"
| "truthy (JObj _) = True"

text \<open>Decimal digits of a natural number, as \<^verbatim>\<open>String(n)\<close> prints an integer.\<close>

fun digits :: "nat \<Rightarrow> string" where
  "digits n =
     (if n < 10 then [char_of (48 + n)]
      else digits (n div 10) @ [char_of (48 + n mod 10)])"

declare digits.simps [simp del]

definition int_to_string :: "int \<Rightarrow> string" where
  "int_to_string i = (if i < 0 then CHR ''-'' # digits (nat (- i)) else digits (nat i))"

text \<open>
  \<^verbatim>\<open>String(v)\<close>. An array prints its elements joined by commas, \<^verbatim>\<open>null\<close> and
  \<^verbatim>\<open>undefined\<close> elements as the empty string; an object prints as
  \<^verbatim>\<open>[object Object]\<close>.
\<close>

fun js_String :: "jsval \<Rightarrow> string" where
  "js_String JUndefined = ''undefined''"
| "js_String JNull = ''null''"
| "js_String (JBool b) = (if b then ''true'' else ''false'')"
| "js_String (JNum n) = int_to_string n"
| "js_String (JStr s) = s"
| "js_String (JArr vs) =
     js_join '','' (map (\<lambda>v. if v = JNull \<or> v = JUndefined then [] else js_String v) vs)"
| "js_String (JObj _) = ''[object Object]''"

subsection \<open>The resolver's arguments\<close>

text \<open>
  \<^verbatim>\<open>record_input\<close> as the schema declares it: three optional filters and the two
  pagination integers (\<^verbatim>\<open>limit\<close> with default 10000, \<^verbatim>\<open>page\<close> with default 1).
\<close>

record record_input =
  ri_data_source_id :: "string option"
  ri_original_id :: "jsval option"
  ri_import_id :: "string option"
  ri_limit :: "int option"
  ri_page :: "int option"

text \<open>
  \<^verbatim>\<open>_relationship\<close> is an object from relationship name to a list of destination
  objects, each from destination name to a boolean; lists, their elements and the
  booleans are nullable in the schema. Objects keep the order of their keys, which
  \<^verbatim>\<open>Object.keys(...)[0]\<close> reads.
\<close>

type_synonym destination_input = "(string \<times> bool option) list"

type_synonym relationship_input = "(string \<times> destination_input option list option) list"

record resolver_input =
  in_record :: "record_input option"
  in_relationship :: "relationship_input option"
  in_properties :: "(string \<times> jsval) list"

subsection \<open>The node query under construction\<close>

text \<open>
  The repository builder is outside these sources; the resolver's chained calls are
  recorded as they are made. \<^verbatim>\<open>id\<close> is called with the number 0 or with a list of
  origin ids.
\<close>

datatype id_value = IdNumber int | IdList "string list"

datatype predicate =
    ContainerID string string
  | MetatypeID string string
  | DataSourceID string string
  | OriginalDataID string string
  | ImportDataID string string
  | NodeID string id_value
  | Property string string string string

record node_query =
  q_predicates :: "predicate list"
  q_loadRelationships :: bool
  q_limit :: nat

record edge =
  origin_id :: string

text \<open>
  The three \<^verbatim>\<open>_record\<close> filters, each applied when its value is truthy.
  \<^verbatim>\<open>breakQuery\<close> calls \<^verbatim>\<open>split\<close> on its argument, which only a string has: a truthy
  \<^verbatim>\<open>original_id\<close> of another kind raises a \<^verbatim>\<open>TypeError\<close>.
\<close>

definition stringFilter :: "(string \<Rightarrow> string \<Rightarrow> predicate) \<Rightarrow> string option \<Rightarrow> predicate list" where
  "stringFilter mk v =
     (case v of
        None \<Rightarrow> []
      | Some s \<Rightarrow> if s \<noteq> [] then [mk (fst (breakQuery s)) (snd (breakQuery s))] else [])"

definition originalIdFilter :: "jsval option \<Rightarrow> js_error + predicate list" where
  "originalIdFilter v =
     (case v of
        None \<Rightarrow> Inr []
      | Some j \<Rightarrow>
          if truthy j
          then (case j of
                  JStr s \<Rightarrow> Inr [OriginalDataID (fst (breakQuery s)) (snd (breakQuery s))]
                | _ \<Rightarrow> Inl TypeError)
          else Inr [])"

definition recordFilters :: "record_input option \<Rightarrow> js_error + predicate list" where
  "recordFilters r =
     (case r of
        None \<Rightarrow> Inr []
      | Some ri \<Rightarrow>
          (case originalIdFilter (ri_original_id ri) of
             Inl e \<Rightarrow> Inl e
           | Inr orig \<Rightarrow>
               Inr (stringFilter DataSourceID (ri_data_source_id ri) @ orig
                    @ stringFilter ImportDataID (ri_import_id ri))))"

text \<open>
  The \<^verbatim>\<open>_relationship\<close> branch. \<^verbatim>\<open>Object.keys(input._relationship)[0]\<close> is
  \<^verbatim>\<open>undefined\<close> for an empty object, and indexing the object with it, then with
  \<^verbatim>\<open>[0]\<close>, raises; so do a null list, an empty list and a null first element. The
  destination is the first key of the first destination object, \<^verbatim>\<open>undefined\<close> when it
  has none. \<open>findByRelationship\<close> stands for the awaited \<^verbatim>\<open>edgeRepo.findByRelationship\<close>
  and gives the \<^verbatim>\<open>value\<close> of its result, \<open>None\<close> when that is \<^verbatim>\<open>undefined\<close>
  (reading \<^verbatim>\<open>length\<close> of it raises).
\<close>

definition relationshipFilter ::
  "(string \<Rightarrow> string \<Rightarrow> string option \<Rightarrow> edge list option) \<Rightarrow> metatype \<Rightarrow>
   relationship_input option \<Rightarrow> js_error + predicate list" where
  "relationshipFilter findByRelationship m rel =
     (case rel of
        None \<Rightarrow> Inr []
      | Some [] \<Rightarrow> Inl TypeError
      | Some ((relationship, dests) # _) \<Rightarrow>
          (case dests of
             None \<Rightarrow> Inl TypeError
           | Some [] \<Rightarrow> Inl TypeError
           | Some (None # _) \<Rightarrow> Inl TypeError
           | Some (Some d # _) \<Rightarrow>
               (let destination = (case d of [] \<Rightarrow> None | (k, _) # _ \<Rightarrow> Some k) in
                case findByRelationship (mt_name m)
                       (replace_first CHR ''_'' CHR '' '' relationship) destination of
                  None \<Rightarrow> Inl TypeError
                | Some edges \<Rightarrow>
                    if edges \<noteq> []
                    then Inr [NodeID ''in'' (IdList (map origin_id edges))]
                    else Inr [NodeID ''eq'' (IdNumber 0)])))"

text \<open>
  \<^verbatim>\<open>propertyMap\<close>: from the sanitized property name to the real name and data type.
\<close>

definition propertyMap :: "(string \<Rightarrow> string) \<Rightarrow> metatype \<Rightarrow> (string \<rightharpoonup> string \<times> string)" where
  "propertyMap san m =
     fold (\<lambda>k pm. pm(san (mk_property_name k) \<mapsto> (mk_property_name k, mk_data_type k)))
       (keys_of m) Map.empty"

text \<open>
  The loop over the argument keys, the two reserved ones skipped. An argument that is no
  key of the metatype finds no entry in \<^verbatim>\<open>propertyMap\<close>, and reading \<^verbatim>\<open>name\<close> of
  \<^verbatim>\<open>undefined\<close> raises.
\<close>

fun propertyFilters ::
  "(string \<rightharpoonup> string \<times> string) \<Rightarrow> (string \<times> jsval) list \<Rightarrow> js_error + predicate list" where
  "propertyFilters pm [] = Inr []"
| "propertyFilters pm ((key, v) # rest) =
     (if key = ''_record'' \<or> key = ''_relationship'' then propertyFilters pm rest
      else
        (let query = breakQuery (js_String v) in
         case pm key of
           None \<Rightarrow> Inl TypeError
         | Some (name, data_type) \<Rightarrow>
             (case propertyFilters pm rest of
                Inl e \<Rightarrow> Inl e
              | Inr ps \<Rightarrow> Inr (Property name (fst query) (snd query) data_type # ps))))"

text \<open>
  The query the resolver has built when it calls
  \<^verbatim>\<open>repo.list(true, {limit: 10000})\<close>, or the error raised on the way (which rejects
  the resolver's promise).
\<close>

definition buildQuery ::
  "(string \<Rightarrow> string) \<Rightarrow> (string \<Rightarrow> string \<Rightarrow> string option \<Rightarrow> edge list option) \<Rightarrow>
   string \<Rightarrow> metatype \<Rightarrow> resolver_input \<Rightarrow> js_error + node_query" where
  "buildQuery san findByRelationship containerID m input =
     (case recordFilters (in_record input) of
        Inl e \<Rightarrow> Inl e
      | Inr recs \<Rightarrow>
          (case relationshipFilter findByRelationship m (in_relationship input) of
             Inl e \<Rightarrow> Inl e
           | Inr rels \<Rightarrow>
               (case propertyFilters (propertyMap san m) (in_properties input) of
                  Inl e \<Rightarrow> Inl e
                | Inr props \<Rightarrow>
                    Inr \<lparr>q_predicates =
                           [ContainerID ''eq'' containerID, MetatypeID ''eq'' (mt_id m)]
                           @ recs @ rels @ props,
                         q_loadRelationships = True,
                         q_limit = 10000\<rparr>)))"

subsection \<open>Running the query and reshaping the rows\<close>

text \<open>
  A node as the repository returns it. Dates are values of the repository; the resolver
  only calls \<^verbatim>\<open>toISOString\<close> on them, the parameter \<open>toISOString\<close> below.
\<close>

record node =
  n_id :: "string option"
  n_data_source_id :: "string option"
  n_original_data_id :: "jsval option"
  n_import_data_id :: "string option"
  n_metatype_id :: "string option"
  n_metatype_name :: "string option"
  n_metadata :: "jsval option"
  n_created_at :: "nat option"
  n_created_by :: "string option"
  n_modified_at :: "nat option"
  n_modified_by :: "string option"
  n_properties :: "(string \<times> jsval) list option"

record record_info =
  r_id :: "string option"
  r_data_source_id :: "string option"
  r_original_id :: "jsval option"
  r_import_id :: "string option"
  r_metatype_id :: "string option"
  r_metatype_name :: "string option"
  r_metadata :: "jsval option"
  r_created_at :: "string option"
  r_created_by :: "string option"
  r_modified_at :: "string option"
  r_modified_by :: "string option"

text \<open>
  One output row: the flattened properties under their sanitized names, and the
  \<^verbatim>\<open>_record\<close> substructure, which is written after the spread of the properties and so
  replaces a property of that name.
\<close>

record node_output =
  out_properties :: "string \<rightharpoonup> jsval"
  out_record :: record_info

definition reshape :: "(string \<Rightarrow> string) \<Rightarrow> (nat \<Rightarrow> string) \<Rightarrow> node \<Rightarrow> node_output" where
  "reshape san toISOString n =
     (let properties =
            (case n_properties n of
               None \<Rightarrow> Map.empty
             | Some kvs \<Rightarrow> fold (\<lambda>(key, v) ps. ps(san key \<mapsto> v)) kvs Map.empty)
      in \<lparr>out_properties = properties(''_record'' := None),
          out_record =
            \<lparr>r_id = n_id n,
             r_data_source_id = n_data_source_id n,
             r_original_id = n_original_data_id n,
             r_import_id = n_import_data_id n,
             r_metatype_id = n_metatype_id n,
             r_metatype_name = n_metatype_name n,
             r_metadata = n_metadata n,
             r_created_at = map_option toISOString (n_created_at n),
             r_created_by = n_created_by n,
             r_modified_at = map_option toISOString (n_modified_at n),
             r_modified_by = n_modified_by n\<rparr>\<rparr>)"

text \<open>
  The \<^verbatim>\<open>Result\<close> that \<^verbatim>\<open>repo.list\<close> fulfils with, through the three fields the
  resolver reads: \<^verbatim>\<open>isError\<close>, the text of \<^verbatim>\<open>error?.error\<close> as the template string
  prints it, and \<^verbatim>\<open>value\<close>, \<open>None\<close> when it is \<^verbatim>\<open>undefined\<close>. The promise of
  \<^verbatim>\<open>list\<close> is fulfilled with such a result or rejected with an exception.
\<close>

record list_result =
  isError :: bool
  error_text :: string
  result_value :: "node list option"

datatype list_outcome = Fulfilled list_result | Rejected js_error

text \<open>
  What the resolver's promise is resolved with, and what was logged. The executor only
  ever calls \<^verbatim>\<open>resolve\<close>; a promise takes the value of the first call, later calls do
  nothing.
\<close>

datatype resolved = Rows "node_output list" | ErrorValue js_error

record promise_state =
  settled :: "resolved option"
  logged :: "string list"

definition pending :: promise_state where
  "pending = \<lparr>settled = None, logged = []\<rparr>"

definition resolve :: "resolved \<Rightarrow> promise_state \<Rightarrow> promise_state" where
  "resolve v st = (if settled st = None then st\<lparr>settled := Some v\<rparr> else st)"

definition logError :: "string \<Rightarrow> promise_state \<Rightarrow> promise_state" where
  "logError msg st = st\<lparr>logged := logged st @ [msg]\<rparr>"

text \<open>
  The \<^verbatim>\<open>then\<close> callback. On \<^verbatim>\<open>isError\<close> it logs and resolves with the empty list, and
  goes on (there is no \<^verbatim>\<open>return\<close>): \<^verbatim>\<open>results.value.forEach\<close> raises when
  \<^verbatim>\<open>value\<close> is \<^verbatim>\<open>undefined\<close>, otherwise the rows are reshaped and \<^verbatim>\<open>resolve\<close> is called
  once more. The result is the exception raised, if any, and the state reached.
\<close>

definition thenCallback ::
  "(string \<Rightarrow> string) \<Rightarrow> (nat \<Rightarrow> string) \<Rightarrow> list_result \<Rightarrow> promise_state \<Rightarrow>
   js_error option \<times> promise_state" where
  "thenCallback san toISOString results st =
     (let st1 = (if isError results
                 then resolve (Rows []) (logError (''unable to list nodes '' @ error_text results) st)
                 else st)
      in case result_value results of
           None \<Rightarrow> (Some TypeError, st1)
         | Some nodes \<Rightarrow> (None, resolve (Rows (map (reshape san toISOString) nodes)) st1))"

text \<open>The \<^verbatim>\<open>catch\<close> callback: \<^verbatim>\<open>resolve(e)\<close>.\<close>

definition catchCallback :: "js_error \<Rightarrow> promise_state \<Rightarrow> promise_state" where
  "catchCallback e st = resolve (ErrorValue e) st"

text \<open>
  \<^verbatim>\<open>repo.list(...).then(...).catch(...)\<close>: the \<^verbatim>\<open>catch\<close> handles a rejection of
  \<^verbatim>\<open>list\<close> and an exception raised inside the \<^verbatim>\<open>then\<close> callback alike.
\<close>

definition runList ::
  "(string \<Rightarrow> string) \<Rightarrow> (nat \<Rightarrow> string) \<Rightarrow> list_outcome \<Rightarrow> promise_state" where
  "runList san toISOString outcome =
     (case outcome of
        Rejected e \<Rightarrow> catchCallback e pending
      | Fulfilled results \<Rightarrow>
          (case thenCallback san toISOString results pending of
             (Some e, st) \<Rightarrow> catchCallback e st
           | (None, st) \<Rightarrow> st))"

text \<open>
  The resolver: an exception while the query is built rejects the resolver's own
  promise (\<open>Inl\<close>); otherwise the query is run by \<open>list\<close>, the repository's
  \<^verbatim>\<open>list(true, {limit: 10000})\<close> on the query built, and the state of the returned
  promise is the result.
\<close>

definition resolverForMetatype ::
  "(string \<Rightarrow> string) \<Rightarrow> (nat \<Rightarrow> string) \<Rightarrow>
   (string \<Rightarrow> string \<Rightarrow> string option \<Rightarrow> edge list option) \<Rightarrow>
   (node_query \<Rightarrow> list_outcome) \<Rightarrow>
   string \<Rightarrow> metatype \<Rightarrow> resolver_input \<Rightarrow> js_error + promise_state" where
  "resolverForMetatype san toISOString findByRelationship list containerID m input =
     (case buildQuery san findByRelationship containerID m input of
        Inl e \<Rightarrow> Inl e
      | Inr q \<Rightarrow> Inr (runList san toISOString (list q)))"

text \<open>
  Modelled from the spec: \<^verbatim>\<open>NodeRepository.list\<close>, which is not part of these sources.
  The specification's graph repository is a builder of chained predicates with
  \<^verbatim>\<open>list(loadRelationships, {limit}) -> rows\<close>; the predicates are joined by
  \<^verbatim>\<open>and()\<close>, so a row is returned when it satisfies every one of them, and at most
  \<^verbatim>\<open>limit\<close> rows are returned. What it means for a row to satisfy one predicate is the
  parameter \<open>holds\<close>.
\<close>

definition listNodes :: "(predicate \<Rightarrow> node \<Rightarrow> bool) \<Rightarrow> node list \<Rightarrow> node_query \<Rightarrow> node list" where
  "listNodes holds rows q =
     take (q_limit q) (filter (\<lambda>n. list_all (\<lambda>p. holds p n) (q_predicates q)) rows)"

definition listFromStore ::
  "(predicate \<Rightarrow> node \<Rightarrow> bool) \<Rightarrow> node list \<Rightarrow> node_query \<Rightarrow> list_outcome" where
  "listFromStore holds rows q =
     Fulfilled \<lparr>isError = False, error_text = ''undefined'',
                result_value = Some (listNodes holds rows q)\<rparr>"

section \<open>The type mapping repository (TypeMappingRepository)\<close>

subsection \<open>Mappings and transformations\<close>

text \<open>
  The domain classes \<^verbatim>\<open>TypeMapping\<close>, \<^verbatim>\<open>TypeTransformation\<close> and the key mappings of a
  transformation, through the fields the repository reads and writes. An absent
  (\<^verbatim>\<open>undefined\<close>) field is \<open>None\<close>; dates are kept as numbers.
\<close>

record key_mapping =
  km_key :: "string option"
  km_metatype_key_id :: "string option"
  km_metatype_relationship_key_id :: "string option"

record type_transformation =
  tt_id :: "string option"
  tt_type_mapping_id :: "string option"
  tt_container_id :: "string option"
  tt_data_source_id :: "string option"
  tt_shape_hash :: "string option"
  tt_metatype_id :: "string option"
  tt_metatype_relationship_pair_id :: "string option"
  tt_created_by :: "string option"
  tt_created_at :: "nat option"
  tt_modified_by :: "string option"
  tt_modified_at :: "nat option"
  tt_keys :: "key_mapping list"

record type_mapping =
  tm_id :: "string option"
  tm_container_id :: "string option"
  tm_data_source_id :: "string option"
  tm_shape_hash :: "string option"
  tm_active :: bool
  tm_created_by :: "string option"
  tm_created_at :: "nat option"
  tm_modified_by :: "string option"
  tm_modified_at :: "nat option"
  tm_transformations :: "type_transformation list option"
  tm_removedTransformations :: "type_transformation list option"

text \<open>\<^verbatim>\<open>Result\<close>: a value, or a failure with its error text.\<close>

datatype 'a result = Success 'a | Failure string

fun is_failure :: "'a result \<Rightarrow> bool" where
  "is_failure (Failure _) = True"
| "is_failure (Success _) = False"

text \<open>An optional string is truthy when it is present and not empty.\<close>

definition truthy_str :: "string option \<Rightarrow> bool" where
  "truthy_str v = (case v of None \<Rightarrow> False | Some s \<Rightarrow> s \<noteq> [])"

text \<open>An optional string inside a template string.\<close>

definition template :: "string option \<Rightarrow> string" where
  "template v = (case v of None \<Rightarrow> ''undefined'' | Some s \<Rightarrow> s)"

subsection \<open>prepareForImport and importToDataSource\<close>

text \<open>
  The body of the loop over \<^verbatim>\<open>typeMapping.transformations\<close>. \<open>populateKeys\<close> stands
  for \<^verbatim>\<open>TypeTransformationRepository.populateKeys\<close>, which is outside these sources and
  works on the transformation in place.
\<close>

definition prepareTransformation ::
  "(type_transformation \<Rightarrow> type_transformation) \<Rightarrow> bool \<Rightarrow> type_transformation \<Rightarrow>
   type_transformation" where
  "prepareTransformation populateKeys separateContainer tr =
     (let tr1 =
            (if separateContainer
             then (let p = populateKeys tr in
                   p\<lparr>tt_keys :=
                        map (\<lambda>k. k\<lparr>km_metatype_relationship_key_id := None,
                                   km_metatype_key_id := None\<rparr>) (tt_keys p),
                     tt_metatype_id := None,
                     tt_metatype_relationship_pair_id := None\<rparr>)
             else tr)
      in tr1\<lparr>tt_type_mapping_id := None,
             tt_id := None,
             tt_container_id := None,
             tt_data_source_id := None,
             tt_shape_hash := None,
             tt_created_by := None,
             tt_created_at := None,
             tt_modified_by := None,
             tt_modified_at := None\<rparr>)"

definition prepareForImport ::
  "(type_transformation \<Rightarrow> type_transformation) \<Rightarrow> type_mapping \<Rightarrow> bool \<Rightarrow> type_mapping" where
  "prepareForImport populateKeys typeMapping separateContainer =
     (let t1 = typeMapping\<lparr>tm_transformations :=
                  map_option (map (prepareTransformation populateKeys separateContainer))
                    (tm_transformations typeMapping)\<rparr>;
          t2 = (if separateContainer then t1\<lparr>tm_container_id := None\<rparr> else t1)
      in t2\<lparr>tm_id := None,
            tm_data_source_id := None,
            tm_created_at := None,
            tm_created_by := None,
            tm_modified_at := None,
            tm_modified_by := None\<rparr>)"

record data_source =
  ds_id :: "string option"
  ds_container_id :: "string option"

text \<open>
  The mapping that \<^verbatim>\<open>importToDataSource\<close> hands to \<^verbatim>\<open>save\<close>: prepared, given the
  target's ids, set inactive, its transformations back-filled by \<open>backfillIDs\<close>
  (\<^verbatim>\<open>TypeTransformationRepository.backfillIDs\<close>, outside these sources).
\<close>

definition importPrepared ::
  "(type_transformation \<Rightarrow> type_transformation) \<Rightarrow>
   (string option \<Rightarrow> type_transformation list \<Rightarrow> type_transformation list) \<Rightarrow>
   data_source \<Rightarrow> type_mapping \<Rightarrow> type_mapping" where
  "importPrepared populateKeys backfillIDs target mapping =
     (let m1 = prepareForImport populateKeys mapping
                 (tm_container_id mapping \<noteq> ds_container_id target);
          m2 = m1\<lparr>tm_data_source_id := ds_id target,
                  tm_container_id := ds_container_id target,
                  tm_active := False\<rparr>
      in case tm_transformations m2 of
           None \<Rightarrow> m2
         | Some ts \<Rightarrow> m2\<lparr>tm_transformations := Some (backfillIDs (ds_container_id target) ts)\<rparr>)"

subsection \<open>save and saveTransformations\<close>

text \<open>
  The mappers, the validators and the transaction calls are outside these sources; they
  are the fields of the environment, each giving the result of the call. Every call is
  recorded, in order, with its result.
\<close>

datatype txn = Txn nat

record save_env =
  mappingValidationErrors :: "type_mapping \<Rightarrow> string list option"
  transformationValidationErrors :: "type_transformation \<Rightarrow> string list option"
  startTransaction :: "txn result"
  completeTransaction :: "txn \<Rightarrow> bool result"
  mapperUpdate :: "string \<Rightarrow> type_mapping \<Rightarrow> txn \<Rightarrow> type_mapping result"
  mapperCreateOrUpdate :: "string \<Rightarrow> type_mapping \<Rightarrow> txn \<Rightarrow> type_mapping result"
  bulkDelete :: "type_transformation list \<Rightarrow> txn \<Rightarrow> bool result"
  bulkUpdate :: "string \<Rightarrow> type_transformation list \<Rightarrow> txn \<Rightarrow> type_transformation list result"
  bulkCreate :: "string \<Rightarrow> type_transformation list \<Rightarrow> txn \<Rightarrow> type_transformation list result"

datatype db_event =
    StartTransaction "txn result"
  | CompleteTransaction txn "bool result"
  | RollbackTransaction txn
  | MappingUpdate txn "type_mapping result"
  | MappingCreateOrUpdate txn "type_mapping result"
  | BulkDelete txn "type_transformation list" "bool result"
  | BulkUpdate txn "type_transformation list" "type_transformation list result"
  | BulkCreate txn "type_transformation list" "type_transformation list result"
  | Validated type_transformation "string list option"
  | DeleteCached type_mapping
  | DeleteCachedTransformation type_transformation

text \<open>
  \<^verbatim>\<open>if (!transaction) { ... startTransaction ... }\<close>: the transaction to use, whether
  it was opened here, and the call made.
\<close>

definition openTransaction :: "save_env \<Rightarrow> txn option \<Rightarrow> txn result \<times> bool \<times> db_event list" where
  "openTransaction env transaction =
     (case transaction of
        Some tx \<Rightarrow> (Success tx, False, [])
      | None \<Rightarrow> (startTransaction env, True, [StartTransaction (startTransaction env)]))"

definition rollbackIf :: "bool \<Rightarrow> txn \<Rightarrow> db_event list" where
  "rollbackIf internalTransaction tx = (if internalTransaction then [RollbackTransaction tx] else [])"

text \<open>
  The loop over \<^verbatim>\<open>t.transformations\<close> in \<^verbatim>\<open>saveTransformations\<close>: the cache entry is
  dropped, the parent's id is written into the transformation, and it is validated; the
  loop stops at the first transformation with validation errors. The result is the
  errors, if any, the transformations as the loop left them, and the calls made.
\<close>

fun validateLoop ::
  "save_env \<Rightarrow> string option \<Rightarrow> type_transformation list \<Rightarrow>
   string list option \<times> type_transformation list \<times> db_event list" where
  "validateLoop env parent [] = (None, [], [])"
| "validateLoop env parent (tr # rest) =
     (let tr' = tr\<lparr>tt_type_mapping_id := parent\<rparr>;
          errors = transformationValidationErrors env tr';
          evs = [DeleteCachedTransformation tr, Validated tr' errors]
      in case errors of
           Some es \<Rightarrow> (Some es, tr' # rest, evs)
         | None \<Rightarrow>
             (case validateLoop env parent rest of
                (r, trs, evs') \<Rightarrow> (r, tr' # trs, evs @ evs')))"

text \<open>
  The two bulk writes after the loop, update before create, each made only for a
  non-empty set; the rows returned are collected.
\<close>

definition bulkWrites ::
  "save_env \<Rightarrow> string \<Rightarrow> txn \<Rightarrow> type_transformation list \<Rightarrow>
   type_transformation list result \<times> db_event list" where
  "bulkWrites env userID tx trs =
     (let transformationsUpdate = filter (\<lambda>tr. truthy_str (tt_id tr)) trs;
          transformationsCreate = filter (\<lambda>tr. \<not> truthy_str (tt_id tr)) trs;
          (updated, evs1) =
            (if transformationsUpdate \<noteq> []
             then (bulkUpdate env userID transformationsUpdate tx,
                   [BulkUpdate tx transformationsUpdate (bulkUpdate env userID transformationsUpdate tx)])
             else (Success [], []))
      in case updated of
           Failure e \<Rightarrow> (Failure e, evs1)
         | Success us \<Rightarrow>
             (if transformationsCreate \<noteq> []
              then (case bulkCreate env userID transformationsCreate tx of
                      Failure e \<Rightarrow>
                        (Failure e,
                         evs1 @ [BulkCreate tx transformationsCreate (Failure e)])
                    | Success cs \<Rightarrow>
                        (Success (us @ cs),
                         evs1 @ [BulkCreate tx transformationsCreate (Success cs)]))
              else (Success us, evs1)))"

text \<open>
  \<^verbatim>\<open>saveTransformations\<close> once the transaction \<open>tx\<close> is at hand;
  \<open>internalTransaction\<close> says whether this call opened it. The result is the
  \<^verbatim>\<open>Result\<close> returned, the mapping as the call left it, and the calls made.
\<close>

definition transformationsIn ::
  "save_env \<Rightarrow> string \<Rightarrow> type_mapping \<Rightarrow> txn \<Rightarrow> bool \<Rightarrow>
   bool result \<times> type_mapping \<times> db_event list" where
  "transformationsIn env userID t tx internalTransaction =
     (let removed = (case tm_removedTransformations t of None \<Rightarrow> [] | Some rs \<Rightarrow> rs);
          evsR = (if removed \<noteq> []
                  then map DeleteCachedTransformation removed
                       @ [BulkDelete tx removed (bulkDelete env removed tx)]
                  else [])
      in if removed \<noteq> [] \<and> is_failure (bulkDelete env removed tx)
         then (Failure (''unable to delete transformations ''
                        @ (case bulkDelete env removed tx of Failure e \<Rightarrow> e | Success _ \<Rightarrow> [])),
               t, evsR @ rollbackIf internalTransaction tx)
         else if tm_transformations t = Some []
         then (if internalTransaction
               then (case completeTransaction env tx of
                       Failure e \<Rightarrow> (Failure e, t, evsR @ [CompleteTransaction tx (Failure e)])
                     | Success b \<Rightarrow> (Success True, t, evsR @ [CompleteTransaction tx (Success b)]))
               else (Success True, t, evsR))
         else
           (case validateLoop env (tm_id t)
                   (case tm_transformations t of None \<Rightarrow> [] | Some ts \<Rightarrow> ts) of
              (Some es, trs, evsV) \<Rightarrow>
                (Failure (''one or more transformations do not pass validation '' @ js_join '','' es),
                 t\<lparr>tm_transformations := Some trs\<rparr>,
                 evsR @ evsV @ rollbackIf internalTransaction tx)
            | (None, trs, evsV) \<Rightarrow>
                (let t1 = t\<lparr>tm_transformations := map_option (\<lambda>_. trs) (tm_transformations t)\<rparr> in
                 case bulkWrites env userID tx trs of
                   (Failure e, evsW) \<Rightarrow>
                     (Failure e, t1, evsR @ evsV @ evsW @ rollbackIf internalTransaction tx)
                 | (Success returnTransformations, evsW) \<Rightarrow>
                     (if internalTransaction
                      then (case completeTransaction env tx of
                              Failure e \<Rightarrow>
                                (Failure e, t1,
                                 evsR @ evsV @ evsW @ [CompleteTransaction tx (Failure e)])
                            | Success b \<Rightarrow>
                                (Success True,
                                 t1\<lparr>tm_transformations := Some returnTransformations\<rparr>,
                                 evsR @ evsV @ evsW @ [CompleteTransaction tx (Success b)]))
                      else (Success True,
                            t1\<lparr>tm_transformations := Some returnTransformations\<rparr>,
                            evsR @ evsV @ evsW)))))"

definition saveTransformations ::
  "save_env \<Rightarrow> string \<Rightarrow> type_mapping \<Rightarrow> txn option \<Rightarrow>
   bool result \<times> type_mapping \<times> db_event list" where
  "saveTransformations env userID t transaction =
     (case openTransaction env transaction of
        (Failure _, _, evs) \<Rightarrow> (Failure ''unable to initiate database transaction'', t, evs)
      | (Success tx, internalTransaction, evs) \<Rightarrow>
          (case transformationsIn env userID t tx internalTransaction of
             (r, t', evs') \<Rightarrow> (r, t', evs @ evs')))"

text \<open>
  \<^verbatim>\<open>Object.assign(t, result.value)\<close>: the row returned by the mapper carries the columns
  of the mapping's table, which replace the mapping's own; the transformations, which
  are no column, stay.
\<close>

definition objectAssign :: "type_mapping \<Rightarrow> type_mapping \<Rightarrow> type_mapping" where
  "objectAssign t row =
     row\<lparr>tm_transformations := tm_transformations t,
         tm_removedTransformations := tm_removedTransformations t\<rparr>"

text \<open>
  \<^verbatim>\<open>t.transformations.forEach((transformation) => (transformation.type_mapping_id = t.id))\<close>
\<close>

definition assignParent :: "type_mapping \<Rightarrow> type_mapping" where
  "assignParent t =
     t\<lparr>tm_transformations :=
         map_option (map (\<lambda>tr. tr\<lparr>tt_type_mapping_id := tm_id t\<rparr>)) (tm_transformations t)\<rparr>"

text \<open>
  The branch of \<^verbatim>\<open>save\<close> for a mapping that has an id. The rollback after a failed
  update and the commit are not guarded by \<^verbatim>\<open>internalTransaction\<close>; the other two
  rollbacks are.
\<close>

definition saveExisting ::
  "save_env \<Rightarrow> string \<Rightarrow> type_mapping \<Rightarrow> bool \<Rightarrow> txn \<Rightarrow> bool \<Rightarrow>
   bool result \<times> type_mapping \<times> db_event list" where
  "saveExisting env userID t saveTrans tx internalTransaction =
     (case mapperUpdate env userID t tx of
        Failure e \<Rightarrow>
          (Failure e, t,
           [DeleteCached t, MappingUpdate tx (Failure e), RollbackTransaction tx])
      | Success row \<Rightarrow>
          (let evs = [DeleteCached t, MappingUpdate tx (Success row)];
               t1 = assignParent (objectAssign t row);
               (transformations, t2, evsT) =
                 (if saveTrans then saveTransformations env userID t1 (Some tx)
                  else (Success True, t1, []))
           in case transformations of
                Failure e \<Rightarrow>
                  (Failure (''unable to save mapping transformations '' @ e), t2,
                   evs @ evsT @ rollbackIf internalTransaction tx)
              | Success _ \<Rightarrow>
                  (case completeTransaction env tx of
                     Failure e \<Rightarrow>
                       (Failure (''unable to commit changes to database '' @ e), t2,
                        evs @ evsT @ [CompleteTransaction tx (Failure e)]
                        @ rollbackIf internalTransaction tx)
                   | Success b \<Rightarrow>
                       (Success True, t2,
                        evs @ evsT @ [CompleteTransaction tx (Success b)]))))"

text \<open>
  The branch for a mapping without an id. Here the rollback after failed transformations
  is not guarded, and the commit is made for an internal transaction only.
\<close>

definition saveNew ::
  "save_env \<Rightarrow> string \<Rightarrow> type_mapping \<Rightarrow> bool \<Rightarrow> txn \<Rightarrow> bool \<Rightarrow>
   bool result \<times> type_mapping \<times> db_event list" where
  "saveNew env userID t saveTrans tx internalTransaction =
     (case mapperCreateOrUpdate env userID t tx of
        Failure e \<Rightarrow>
          (Failure e, t,
           [MappingCreateOrUpdate tx (Failure e)] @ rollbackIf internalTransaction tx)
      | Success row \<Rightarrow>
          (let evs = [MappingCreateOrUpdate tx (Success row)];
               t1 = assignParent (objectAssign t row);
               (transformations, t2, evsT) =
                 (if saveTrans then saveTransformations env userID t1 (Some tx)
                  else (Success True, t1, []))
           in case transformations of
                Failure e \<Rightarrow>
                  (Failure (''unable to save mapping transformations '' @ e), t2,
                   evs @ evsT @ [RollbackTransaction tx])
              | Success _ \<Rightarrow>
                  (if internalTransaction
                   then (case completeTransaction env tx of
                           Failure e \<Rightarrow>
                             (Failure (''unable to commit changes to database '' @ e), t2,
                              evs @ evsT @ [CompleteTransaction tx (Failure e),
                                            RollbackTransaction tx])
                         | Success b \<Rightarrow>
                             (Success True, t2,
                              evs @ evsT @ [CompleteTransaction tx (Success b)]))
                   else (Success True, t2, evs @ evsT))))"

definition save ::
  "save_env \<Rightarrow> string \<Rightarrow> type_mapping \<Rightarrow> bool \<Rightarrow> txn option \<Rightarrow>
   bool result \<times> type_mapping \<times> db_event list" where
  "save env userID t saveTrans transaction =
     (case mappingValidationErrors env t of
        Some errors \<Rightarrow>
          (Failure (''type mapping does not pass validation '' @ js_join '','' errors), t, [])
      | None \<Rightarrow>
          (case openTransaction env transaction of
             (Failure _, _, evs) \<Rightarrow> (Failure ''unable to initiate database transaction'', t, evs)
           | (Success tx, internalTransaction, evs) \<Rightarrow>
               (case (if truthy_str (tm_id t)
                      then saveExisting env userID t saveTrans tx internalTransaction
                      else saveNew env userID t saveTrans tx internalTransaction) of
                  (r, t', evs') \<Rightarrow> (r, t', evs @ evs'))))"

text \<open>
  One mapping's import in \<^verbatim>\<open>importToDataSource\<close>: the prepared mapping is saved with
  a transaction of its own. \<^verbatim>\<open>prepareForImport\<close> and \<^verbatim>\<open>save\<close> work on the object in
  place, so the mapping returned on failure is the object as they left it.
\<close>

datatype import_result = Imported type_mapping | ImportFailed string type_mapping

definition importOne ::
  "save_env \<Rightarrow> (type_transformation \<Rightarrow> type_transformation) \<Rightarrow>
   (string option \<Rightarrow> type_transformation list \<Rightarrow> type_transformation list) \<Rightarrow>
   string \<Rightarrow> data_source \<Rightarrow> type_mapping \<Rightarrow> import_result \<times> db_event list" where
  "importOne env populateKeys backfillIDs userID target mapping =
     (case save env userID (importPrepared populateKeys backfillIDs target mapping) True None of
        (Failure e, t', evs) \<Rightarrow> (ImportFailed e t', evs)
      | (Success _, t', evs) \<Rightarrow> (Imported t', evs))"

subsection \<open>The store behind the calls\<close>

text \<open>
  Modelled from the spec: the persistence interface of the type mappings, which is not
  part of these sources: "transactional create/update/delete of mappings and bulk
  create/update/delete of transformations", with "a single transaction with explicit
  commit/rollback". The store holds the persisted transformations and, while a
  transaction is open, the transaction's working copy. A successful bulk call changes the
  working copy, a failed one nothing; commit makes the working copy the persisted
  state, rollback discards it.
\<close>

record store =
  persisted :: "type_transformation list"
  working :: "type_transformation list option"

definition writeRows :: "(type_transformation list \<Rightarrow> type_transformation list) \<Rightarrow> store \<Rightarrow> store" where
  "writeRows f s = s\<lparr>working := map_option f (working s)\<rparr>"

definition replaceRows :: "type_transformation list \<Rightarrow> type_transformation list \<Rightarrow> type_transformation list" where
  "replaceRows rows old =
     map (\<lambda>x. case find (\<lambda>r. tt_id r = tt_id x) rows of None \<Rightarrow> x | Some r \<Rightarrow> r) old"

fun applyEvent :: "db_event \<Rightarrow> store \<Rightarrow> store" where
  "applyEvent (StartTransaction (Success tx)) s = s\<lparr>working := Some (persisted s)\<rparr>"
| "applyEvent (CompleteTransaction tx (Success b)) s =
     \<lparr>persisted = (case working s of None \<Rightarrow> persisted s | Some w \<Rightarrow> w), working = None\<rparr>"
| "applyEvent (RollbackTransaction tx) s = s\<lparr>working := None\<rparr>"
| "applyEvent (BulkDelete tx removed (Success b)) s =
     writeRows (filter (\<lambda>x. tt_id x \<notin> set (map tt_id removed))) s"
| "applyEvent (BulkUpdate tx trs (Success rows)) s = writeRows (replaceRows rows) s"
| "applyEvent (BulkCreate tx trs (Success rows)) s = writeRows (\<lambda>w. w @ rows) s"
| "applyEvent _ s = s"

definition applyEvents :: "db_event list \<Rightarrow> store \<Rightarrow> store" where
  "applyEvents evs s = fold applyEvent evs s"

text \<open>The calls of a run that the claims speak of.\<close>

fun is_commit :: "db_event \<Rightarrow> bool" where
  "is_commit (CompleteTransaction _ _) = True"
| "is_commit _ = False"

fun is_successful_commit :: "db_event \<Rightarrow> bool" where
  "is_successful_commit (CompleteTransaction _ (Success _)) = True"
| "is_successful_commit _ = False"

fun is_rollback :: "db_event \<Rightarrow> bool" where
  "is_rollback (RollbackTransaction _) = True"
| "is_rollback _ = False"

text \<open>A transformation that failed validation, or a bulk write that failed.\<close>

fun transformation_failure :: "db_event \<Rightarrow> bool" where
  "transformation_failure (Validated _ (Some _)) = True"
| "transformation_failure (BulkDelete _ _ (Failure _)) = True"
| "transformation_failure (BulkUpdate _ _ (Failure _)) = True"
| "transformation_failure (BulkCreate _ _ (Failure _)) = True"
| "transformation_failure _ = False"

subsection \<open>findByID and findByShapeHash\<close>

text \<open>
  The cache holds serialized mappings under string keys. \<^verbatim>\<open>Cache.set\<close> answers whether
  it stored the value; the mappers' answers and the table name are given by the
  environment.
\<close>

record lookup_env =
  tableName :: string
  retrieve :: "string \<Rightarrow> type_mapping result"
  retrieveByShapeHash :: "string \<Rightarrow> string \<Rightarrow> type_mapping result"
  listForTypeMapping :: "string option \<Rightarrow> type_transformation list result"
  cacheSetOk :: "string \<Rightarrow> bool"

datatype lookup_event =
    CacheGet string
  | CacheSet string type_mapping
  | Retrieve string
  | RetrieveByShapeHash string string
  | ListForTypeMapping "string option"

record lookup_state =
  cache :: "string \<rightharpoonup> type_mapping"
  calls :: "lookup_event list"
  errors_logged :: "string list"

definition idKey :: "lookup_env \<Rightarrow> string option \<Rightarrow> string" where
  "idKey env i = tableName env @ '':'' @ template i"

definition shapeKey :: "lookup_env \<Rightarrow> string option \<Rightarrow> string option \<Rightarrow> string" where
  "shapeKey env dataSourceID shapeHash =
     tableName env @ '':dataSourceID:'' @ template dataSourceID @ '':shapeHash:'' @ template shapeHash"

definition cacheSet :: "lookup_env \<Rightarrow> string \<Rightarrow> type_mapping \<Rightarrow> lookup_state \<Rightarrow> lookup_state" where
  "cacheSet env key t st =
     (let st1 = st\<lparr>calls := calls st @ [CacheSet key t]\<rparr> in
      if cacheSetOk env key then st1\<lparr>cache := (cache st1)(key \<mapsto> t)\<rparr>
      else st1\<lparr>errors_logged := errors_logged st1
                 @ [''unable to set cache for type mapping'' @ template (tm_id t)]\<rparr>)"

definition setCache :: "lookup_env \<Rightarrow> type_mapping \<Rightarrow> lookup_state \<Rightarrow> lookup_state" where
  "setCache env t st =
     cacheSet env (shapeKey env (tm_data_source_id t) (tm_shape_hash t)) t
       (cacheSet env (idKey env (tm_id t)) t st)"

text \<open>
  \<^verbatim>\<open>addTransformation(...transformations)\<close> of the domain class: the transformations
  are added to the mapping's own.
\<close>

definition addTransformation :: "type_transformation list \<Rightarrow> type_mapping \<Rightarrow> type_mapping" where
  "addTransformation ts t =
     t\<lparr>tm_transformations :=
         Some ((case tm_transformations t of None \<Rightarrow> [] | Some old \<Rightarrow> old) @ ts)\<rparr>"

text \<open>
  What both lookups do after a cache miss, with the mapper's answer \<open>retrieved\<close>: when
  the mapping was found and transformations are wanted they are listed and, if the
  listing succeeded, added; then \<^verbatim>\<open>setCache\<close> is called, inside the outer \<^verbatim>\<open>if\<close> but
  after the inner one.
\<close>

definition loadAndCache ::
  "lookup_env \<Rightarrow> type_mapping result \<Rightarrow> bool \<Rightarrow> lookup_state \<Rightarrow>
   type_mapping result \<times> lookup_state" where
  "loadAndCache env retrieved loadTransformations st =
     (case retrieved of
        Failure e \<Rightarrow> (Failure e, st)
      | Success t \<Rightarrow>
          if loadTransformations
          then (let st1 = st\<lparr>calls := calls st @ [ListForTypeMapping (tm_id t)]\<rparr>;
                    t1 = (case listForTypeMapping env (tm_id t) of
                            Failure _ \<Rightarrow> t
                          | Success ts \<Rightarrow> addTransformation ts t)
                in (Success t1, setCache env t1 st1))
          else (Success t, st))"

definition findByID ::
  "lookup_env \<Rightarrow> string \<Rightarrow> bool \<Rightarrow> lookup_state \<Rightarrow> type_mapping result \<times> lookup_state" where
  "findByID env i loadTransformations st =
     (let key = idKey env (Some i);
          st1 = st\<lparr>calls := calls st @ [CacheGet key]\<rparr>
      in case cache st key of
           Some cached \<Rightarrow> (Success cached, st1)
         | None \<Rightarrow>
             loadAndCache env (retrieve env i) loadTransformations
               (st1\<lparr>calls := calls st1 @ [Retrieve i]\<rparr>))"

definition findByShapeHash ::
  "lookup_env \<Rightarrow> string \<Rightarrow> string \<Rightarrow> bool \<Rightarrow> lookup_state \<Rightarrow>
   type_mapping result \<times> lookup_state" where
  "findByShapeHash env shapeHash dataSourceID loadTransformations st =
     (let key = shapeKey env (Some dataSourceID) (Some shapeHash);
          st1 = st\<lparr>calls := calls st @ [CacheGet key]\<rparr>
      in case cache st key of
           Some cached \<Rightarrow> (Success cached, st1)
         | None \<Rightarrow>
             loadAndCache env (retrieveByShapeHash env dataSourceID shapeHash) loadTransformations
               (st1\<lparr>calls := calls st1 @ [RetrieveByShapeHash dataSourceID shapeHash]\<rparr>))"

section \<open>The changelist repository (ChangelistRepository, ChangelistMapper)\<close>

record changelist_row =
  cl_id :: string
  cl_status :: string
  cl_modified_at :: nat
  cl_modified_by :: string

record approval_row =
  ap_id :: string
  ap_changelist_id :: string
  ap_approved_by :: string

record changelist_db =
  changelists :: "changelist_row list"
  approvals :: "approval_row list"

text \<open>
  Whether a statement runs is decided by \<^verbatim>\<open>Mapper.runStatement\<close> and the database,
  outside these sources: the environment says which statements succeed and what
  \<^verbatim>\<open>NOW()\<close> is. A statement that fails changes nothing.
\<close>

record changelist_env =
  setStatusOk :: bool
  deleteOk :: bool
  now :: nat

text \<open>
  \<^verbatim>\<open>ChangelistMapper.SetStatus\<close> runs
  \<^verbatim>\<open>UPDATE changelists SET status = $2, modified_at = NOW(), modified_by = $3 WHERE id = $1\<close>.
\<close>

definition SetStatus ::
  "changelist_env \<Rightarrow> string \<Rightarrow> string \<Rightarrow> string \<Rightarrow> changelist_db \<Rightarrow> bool result \<times> changelist_db" where
  "SetStatus env i userID status db =
     (if setStatusOk env
      then (Success True,
            db\<lparr>changelists :=
                 map (\<lambda>c. if cl_id c = i
                          then c\<lparr>cl_status := status, cl_modified_at := now env,
                                 cl_modified_by := userID\<rparr>
                          else c) (changelists db)\<rparr>)
      else (Failure ''SetStatus'', db))"

text \<open>
  Modelled from the spec: \<^verbatim>\<open>ChangelistApprovalMapper.DeleteByChangelist\<close>, which is not
  part of these sources. The specification has the changelist persistence interface
  offer "approval create/list/delete-by-changelist" and says that revocation "deletes
  all approval records for the changelist": the rows of that changelist are removed
  from the table.
\<close>

definition DeleteByChangelist ::
  "changelist_env \<Rightarrow> string \<Rightarrow> changelist_db \<Rightarrow> bool result \<times> changelist_db" where
  "DeleteByChangelist env changelistID db =
     (if deleteOk env
      then (Success True,
            db\<lparr>approvals := filter (\<lambda>a. ap_changelist_id a \<noteq> changelistID) (approvals db)\<rparr>)
      else (Failure ''DeleteByChangelist'', db))"

text \<open>
  \<^verbatim>\<open>revokeApproval\<close> awaits \<^verbatim>\<open>SetStatus\<close>, drops its result, and returns what
  \<^verbatim>\<open>DeleteByChangelist\<close> returns.
\<close>

definition revokeApproval ::
  "changelist_env \<Rightarrow> string \<Rightarrow> string \<Rightarrow> changelist_db \<Rightarrow> bool result \<times> changelist_db" where
  "revokeApproval env changelistID approverID db =
     DeleteByChangelist env changelistID
       (snd (SetStatus env changelistID approverID ''rejected'' db))"

text \<open>
  What the generated schema lets through to the resolver, as far as the construction of
  the query depends on it: every property argument is named by the sanitized property
  name of one of the metatype's keys (those are the arguments the field declares), and
  \<^verbatim>\<open>_record.original_id\<close>, when present and truthy, is a string.
\<close>

definition string_or_falsy :: "jsval option \<Rightarrow> bool" where
  "string_or_falsy v =
     (case v of
        None \<Rightarrow> True
      | Some j \<Rightarrow> (case j of JStr _ \<Rightarrow> True | _ \<Rightarrow> \<not> truthy j))"

definition declared_arguments :: "(string \<Rightarrow> string) \<Rightarrow> metatype \<Rightarrow> resolver_input \<Rightarrow> bool" where
  "declared_arguments san m input =
     (list_all (\<lambda>(key, v). key \<in> set (map (\<lambda>k. san (mk_property_name k)) (keys_of m)))
        (in_properties input)
      \<and> (case in_record input of None \<Rightarrow> True | Some r \<Rightarrow> string_or_falsy (ri_original_id r)))"

section \<open>Example inputs\<close>

text \<open>A metatype with a number key, a date key and an enumeration key.\<close>

definition pump :: metatype where
  "pump = \<lparr>mt_id = ''1'', mt_name = ''Pump'', mt_description = ''a pump'',
           mt_keys = Some [\<lparr>mk_name = ''Flow rate'', mk_property_name = ''flow_rate'',
                             mk_data_type = ''number'', mk_options = None\<rparr>,
                           \<lparr>mk_name = ''Installed'', mk_property_name = ''installed'',
                             mk_data_type = ''date'', mk_options = None\<rparr>,
                           \<lparr>mk_name = ''State'', mk_property_name = ''state'',
                             mk_data_type = ''enumeration'', mk_options = Some [''on'', ''off'']\<rparr>]\<rparr>"

text \<open>
  A query for pumps that feed a tank, with a \<^verbatim>\<open>_record\<close> filter asking for five rows of
  page two and a filter on the flow rate; an edge repository that finds no edge; a
  repository whose \<^verbatim>\<open>list\<close> is rejected, and one that answers with an error result.
\<close>

definition pumps_feeding :: resolver_input where
  "pumps_feeding =
     \<lparr>in_record = Some \<lparr>ri_data_source_id = Some ''eq 7'', ri_original_id = None,
                          ri_import_id = None, ri_limit = Some 5, ri_page = Some 2\<rparr>,
      in_relationship = Some [(''feeds'', Some [Some [(''Tank'', Some True)]])],
      in_properties = [(''flow_rate'', JNum 10)]\<rparr>"

definition no_edges :: "string \<Rightarrow> string \<Rightarrow> string option \<Rightarrow> edge list option" where
  "no_edges origin rel dest = Some []"

definition list_rejected :: "node_query \<Rightarrow> list_outcome" where
  "list_rejected q = Rejected (Thrown ''connection terminated'')"

definition list_failed :: "node_query \<Rightarrow> list_outcome" where
  "list_failed q =
     Fulfilled \<lparr>isError = True, error_text = ''timeout'', result_value = None\<rparr>"

definition a_pump_node :: node where
  "a_pump_node =
     \<lparr>n_id = Some ''12'', n_data_source_id = Some ''7'', n_original_data_id = None,
      n_import_data_id = None, n_metatype_id = Some ''1'', n_metatype_name = Some ''Pump'',
      n_metadata = None, n_created_at = None, n_created_by = None, n_modified_at = None,
      n_modified_by = None, n_properties = Some [(''flow_rate'', JNum 10)]\<rparr>"

text \<open>A reading of the predicates in which the id predicate compares with the node's id.\<close>

fun id_holds :: "predicate \<Rightarrow> node \<Rightarrow> bool" where
  "id_holds (NodeID op (IdNumber k)) n = (op = ''eq'' \<and> n_id n = Some (int_to_string k))"
| "id_holds (NodeID op (IdList ids)) n = (op = ''in'' \<and> (case n_id n of None \<Rightarrow> False | Some i \<Rightarrow> i \<in> set ids))"
| "id_holds _ n = True"

text \<open>A sanitizer that keeps every name, and a date printer.\<close>

definition keep_name :: "string \<Rightarrow> string" where
  "keep_name s = s"

definition iso_epoch :: "nat \<Rightarrow> string" where
  "iso_epoch d = ''1970-01-01T00:00:00.000Z''"

text \<open>
  A persistence layer in which every call succeeds, a validator that rejects a
  transformation without a metatype, and a new mapping with one valid and one invalid
  transformation.
\<close>

definition strict_env :: save_env where
  "strict_env =
     \<lparr>mappingValidationErrors = (\<lambda>t. None),
      transformationValidationErrors =
        (\<lambda>tr. if tt_metatype_id tr = None then Some [''metatype_id must be a string''] else None),
      startTransaction = Success (Txn 1),
      completeTransaction = (\<lambda>tx. Success True),
      mapperUpdate = (\<lambda>userID t tx. Success t),
      mapperCreateOrUpdate = (\<lambda>userID t tx. Success (t\<lparr>tm_id := Some ''9''\<rparr>)),
      bulkDelete = (\<lambda>trs tx. Success True),
      bulkUpdate = (\<lambda>userID trs tx. Success trs),
      bulkCreate = (\<lambda>userID trs tx. Success (map (\<lambda>tr. tr\<lparr>tt_id := Some ''31''\<rparr>) trs))\<rparr>"

definition blank_transformation :: type_transformation where
  "blank_transformation =
     \<lparr>tt_id = None, tt_type_mapping_id = None, tt_container_id = None,
      tt_data_source_id = None, tt_shape_hash = None, tt_metatype_id = None,
      tt_metatype_relationship_pair_id = None, tt_created_by = None, tt_created_at = None,
      tt_modified_by = None, tt_modified_at = None, tt_keys = []\<rparr>"

definition new_mapping :: type_mapping where
  "new_mapping =
     \<lparr>tm_id = None, tm_container_id = Some ''1'', tm_data_source_id = Some ''7'',
      tm_shape_hash = Some ''c0ffee'', tm_active = True, tm_created_by = None,
      tm_created_at = None, tm_modified_by = None, tm_modified_at = None,
      tm_transformations =
        Some [blank_transformation\<lparr>tt_metatype_id := Some ''1''\<rparr>, blank_transformation],
      tm_removedTransformations = None\<rparr>"

definition empty_store :: store where
  "empty_store = \<lparr>persisted = [], working = None\<rparr>"

text \<open>
  A stored mapping as the mapper returns it (the row, without transformations), one of
  its transformations, and a lookup environment in which the mapping is found but the
  listing of its transformations fails.
\<close>

definition stored_mapping :: type_mapping where
  "stored_mapping =
     \<lparr>tm_id = Some ''9'', tm_container_id = Some ''1'', tm_data_source_id = Some ''7'',
      tm_shape_hash = Some ''c0ffee'', tm_active = True, tm_created_by = Some ''u1'',
      tm_created_at = Some 1000, tm_modified_by = Some ''u1'', tm_modified_at = Some 2000,
      tm_transformations = None, tm_removedTransformations = None\<rparr>"

definition stored_transformation :: type_transformation where
  "stored_transformation =
     \<lparr>tt_id = Some ''31'', tt_type_mapping_id = Some ''9'', tt_container_id = Some ''1'',
      tt_data_source_id = Some ''7'', tt_shape_hash = Some ''c0ffee'',
      tt_metatype_id = Some ''1'', tt_metatype_relationship_pair_id = None,
      tt_created_by = Some ''u1'', tt_created_at = Some 1000, tt_modified_by = Some ''u1'',
      tt_modified_at = Some 2000,
      tt_keys = [\<lparr>km_key = Some ''flow'', km_metatype_key_id = Some ''4'',
                  km_metatype_relationship_key_id = None\<rparr>]\<rparr>"

definition listing_fails :: lookup_env where
  "listing_fails =
     \<lparr>tableName = ''data_type_mappings'',
      retrieve = (\<lambda>i. Success stored_mapping),
      retrieveByShapeHash = (\<lambda>dataSourceID shapeHash. Success stored_mapping),
      listForTypeMapping = (\<lambda>i. Failure ''connection terminated''),
      cacheSetOk = (\<lambda>key. True)\<rparr>"

definition cold_cache :: lookup_state where
  "cold_cache = \<lparr>cache = Map.empty, calls = [], errors_logged = []\<rparr>"

text \<open>A \<^verbatim>\<open>populateKeys\<close> that finds nothing to fill in, and a target data source.\<close>

definition populate_nothing :: "type_transformation \<Rightarrow> type_transformation" where
  "populate_nothing tr = tr"

definition other_container_source :: data_source where
  "other_container_source = \<lparr>ds_id = Some ''8'', ds_container_id = Some ''2''\<rparr>"

text \<open>Two changelists, the first with two approvals, and a database that answers.\<close>

definition two_changelists :: changelist_db where
  "two_changelists =
     \<lparr>changelists =
        [\<lparr>cl_id = ''5'', cl_status = ''approved'', cl_modified_at = 10, cl_modified_by = ''u1''\<rparr>,
         \<lparr>cl_id = ''6'', cl_status = ''approved'', cl_modified_at = 11, cl_modified_by = ''u2''\<rparr>],
      approvals =
        [\<lparr>ap_id = ''1'', ap_changelist_id = ''5'', ap_approved_by = ''u1''\<rparr>,
         \<lparr>ap_id = ''2'', ap_changelist_id = ''6'', ap_approved_by = ''u2''\<rparr>,
         \<lparr>ap_id = ''3'', ap_changelist_id = ''5'', ap_approved_by = ''u3''\<rparr>]\<rparr>"

definition answering :: changelist_env where
  "answering = \<lparr>setStatusOk = True, deleteOk = True, now = 20\<rparr>"

section \<open>Properties of breakQuery\<close>

lemma split_sep_not_empty: "split_sep sep s \<noteq> []"
  by (induction sep s rule: split_sep.induct) (auto split: list.splits)

lemma join_split_char: "js_join [x] (split_sep [x] s) = s"
proof (induction s)
  case Nil
  then show ?case by simp
next
  case (Cons c cs)
  obtain p ps where ps: "split_sep [x] cs = p # ps"
    using split_sep_not_empty by (cases "split_sep [x] cs") auto
  show ?case
  proof (cases "c = x")
    case True
    then show ?thesis using Cons ps by simp
  next
    case False
    then show ?thesis using Cons ps by (cases ps) auto
  qed
qed

lemma hd_split_char: "hd (split_sep [x] s) = takeWhile (\<lambda>c. c \<noteq> x) s"
  by (induction s) (auto split: list.splits simp: split_sep_not_empty)

lemma join_tl_split_char:
  "js_join [x] (tl (split_sep [x] s)) = drop (Suc (length (takeWhile (\<lambda>c. c \<noteq> x) s))) s"
proof (induction s)
  case Nil
  then show ?case by simp
next
  case (Cons c cs)
  show ?case
  proof (cases "c = x")
    case True
    then show ?thesis by (simp add: join_split_char)
  next
    case False
    then show ?thesis using Cons by (auto split: list.splits simp: split_sep_not_empty)
  qed
qed

lemma breakQuery_closed_form:
  "breakQuery q =
     (let tok = takeWhile (\<lambda>c. c \<noteq> CHR '' '') q in
      if tok \<in> set operators then (tok, drop (Suc (length tok)) q) else (''eq'', q))"
proof -
  obtain p ps where ps: "split_sep '' '' q = p # ps"
    using split_sep_not_empty by (cases "split_sep '' '' q") auto
  have p: "p = takeWhile (\<lambda>c. c \<noteq> CHR '' '') q"
    using hd_split_char [of "CHR '' ''" q] ps by simp
  have j: "js_join '' '' ps = drop (Suc (length p)) q"
    using join_tl_split_char [of "CHR '' ''" q] ps p by simp
  show ?thesis
    unfolding breakQuery_def js_split_def Let_def using ps p j by simp
qed

text \<open>
  C2, as the claim states it, fails: the operator is cut off at the first space
  character only. In the filter \<^verbatim>\<open>eq<TAB>5\<close> the first whitespace-delimited token is
  \<^verbatim>\<open>eq\<close>, an operator, with remainder \<^verbatim>\<open>5\<close>; \<^verbatim>\<open>split(' ')\<close> leaves the string in one
  part, which is no operator, and breakQuery answers \<^verbatim>\<open>['eq', 'eq<TAB>5']\<close>.
\<close>

theorem breakQuery_tab_counterexample:
  "spec_first_token [CHR ''e'', CHR ''q'', CHR 0x09, CHR ''5''] \<in> set operators
   \<and> breakQuery [CHR ''e'', CHR ''q'', CHR 0x09, CHR ''5'']
       \<noteq> (spec_first_token [CHR ''e'', CHR ''q'', CHR 0x09, CHR ''5''],
           spec_remainder [CHR ''e'', CHR ''q'', CHR 0x09, CHR ''5''])
   \<and> breakQuery [CHR ''e'', CHR ''q'', CHR 0x09, CHR ''5'']
       = (''eq'', [CHR ''e'', CHR ''q'', CHR 0x09, CHR ''5''])"
  by (simp add: spec_first_token_def spec_remainder_def is_whitespace_def operators_def
      breakQuery_def js_split_def)

text \<open>
  C2, amended: for every filter string, let the token be the part of the string before its
  first space character (the whole string when it has no space). When the token is one of
  eq, neq, like, in, <, > breakQuery returns the token and the rest of the string after
  that first space; otherwise it returns eq and the entire string. In particular
  \<^verbatim>\<open>breakQuery("eq 5") = ['eq','5']\<close>, \<^verbatim>\<open>breakQuery("42") = ['eq','42']\<close> and
  \<^verbatim>\<open>breakQuery("like %foo%") = ['like','%foo%']\<close>.
\<close>

theorem breakQuery_space_token:
  "breakQuery q =
     (if takeWhile (\<lambda>c. c \<noteq> CHR '' '') q \<in> set operators
      then (takeWhile (\<lambda>c. c \<noteq> CHR '' '') q,
            drop (Suc (length (takeWhile (\<lambda>c. c \<noteq> CHR '' '') q))) q)
      else (''eq'', q))
   \<and> breakQuery ''eq 5'' = (''eq'', ''5'')
   \<and> breakQuery ''42'' = (''eq'', ''42'')
   \<and> breakQuery ''like %foo%'' = (''like'', ''%foo%'')"
proof -
  have general: "breakQuery q =
     (if takeWhile (\<lambda>c. c \<noteq> CHR '' '') q \<in> set operators
      then (takeWhile (\<lambda>c. c \<noteq> CHR '' '') q,
            drop (Suc (length (takeWhile (\<lambda>c. c \<noteq> CHR '' '') q))) q)
      else (''eq'', q))"
    using breakQuery_closed_form [of q] by (simp add: Let_def)
  have e1: "breakQuery ''eq 5'' = (''eq'', ''5'')"
    by (simp add: breakQuery_def js_split_def operators_def)
  have e2: "breakQuery ''42'' = (''eq'', ''42'')"
    by (simp add: breakQuery_def js_split_def operators_def)
  have e3: "breakQuery ''like %foo%'' = (''like'', ''%foo%'')"
    by (simp add: breakQuery_def js_split_def operators_def)
  from general e1 e2 e3 show ?thesis by blast
qed

section \<open>Properties of the schema generator\<close>

lemma fold_upd_other:
  "y \<notin> set (map f ks) \<Longrightarrow> fold (\<lambda>k m. m(f k \<mapsto> g k)) ks m0 y = m0 y"
  by (induction ks arbitrary: m0) auto

lemma fold_upd_distinct:
  "distinct (map f ks) \<Longrightarrow> k \<in> set ks \<Longrightarrow>
   fold (\<lambda>k m. m(f k \<mapsto> g k)) ks m0 (f k) = Some (g k)"
proof (induction ks arbitrary: m0)
  case Nil
  then show ?case by simp
next
  case (Cons a ks)
  show ?case
  proof (cases "k = a")
    case True
    have "f a \<notin> set (map f ks)" using Cons.prems by simp
    then have "fold (\<lambda>k m. m(f k \<mapsto> g k)) ks (m0(f a \<mapsto> g a)) (f a)
               = (m0(f a \<mapsto> g a)) (f a)"
      by (rule fold_upd_other)
    then show ?thesis using True by (simp del: fun_upd_apply) simp
  next
    case False
    then show ?thesis using Cons by simp
  qed
qed

lemma string_case_label_eq: "string_case_label = ''string''"
  by (simp add: string_case_label_def js_or_def)

text \<open>
  C3: every key of a metatype gets, under its sanitized property name, a schema type that
  follows its declared data type, in the output object fields and in the filter input
  fields alike: number gives the float type, boolean the boolean type, string, date and
  file the string type, list a list of arbitrary JSON, and enumeration a generated enum
  type named from the owning metatype's name and the key's name. The sanitized property
  names of a metatype's keys are distinct (the data model's invariant); a later key of the
  same sanitized name would overwrite the field.
\<close>

theorem field_types_follow_data_type:
  assumes "k \<in> set (keys_of m)"
      and "distinct (map (\<lambda>k. san (mk_property_name k)) (keys_of m))"
  shows "\<exists>out_t in_t.
           outputFields san m (san (mk_property_name k)) = Some out_t
         \<and> inputFieldsForMetatype san m (san (mk_property_name k)) = Some in_t
         \<and> (mk_data_type k = ''number'' \<longrightarrow> out_t = GraphQLFloat \<and> in_t = GraphQLFloat)
         \<and> (mk_data_type k = ''boolean'' \<longrightarrow> out_t = GraphQLBoolean \<and> in_t = GraphQLBoolean)
         \<and> (mk_data_type k = ''string'' \<or> mk_data_type k = ''date'' \<or> mk_data_type k = ''file''
              \<longrightarrow> out_t = GraphQLString \<and> in_t = GraphQLString)
         \<and> (mk_data_type k = ''list'' \<longrightarrow>
              out_t = GraphQLList GraphQLJSON \<and> in_t = GraphQLList GraphQLJSON)
         \<and> (mk_data_type k = ''enumeration'' \<longrightarrow>
              out_t = GraphQLEnumType (san (mt_name m @ ''_'' @ mk_name k @ ''_Enum_TypeA''))
                        (enumMap (mk_options k))
            \<and> in_t = GraphQLEnumType (san (mt_name m @ ''_'' @ mk_name k @ ''_Enum_Type_B''))
                        (enumMap (mk_options k)))"
proof -
  have o: "outputFields san m (san (mk_property_name k)) = Some (outputFieldType san m k)"
    unfolding outputFields_def
    using fold_upd_distinct [of "\<lambda>k. san (mk_property_name k)" "keys_of m" k "outputFieldType san m"] assms
    by simp
  have i: "inputFieldsForMetatype san m (san (mk_property_name k)) = Some (inputFieldType san m k)"
    unfolding inputFieldsForMetatype_def
    using fold_upd_distinct [of "\<lambda>k. san (mk_property_name k)" "keys_of m" k "inputFieldType san m"] assms
    by simp
  show ?thesis
    unfolding o i by (simp add: outputFieldType_def inputFieldType_def string_case_label_eq)
qed

theorem field_types_follow_data_type_witness:
  "outputFields (\<lambda>s. s) pump ''state''
     = Some (GraphQLEnumType ''Pump_State_Enum_TypeA'' (enumMap (Some [''on'', ''off''])))
   \<and> inputFieldsForMetatype (\<lambda>s. s) pump ''state''
     = Some (GraphQLEnumType ''Pump_State_Enum_Type_B'' (enumMap (Some [''on'', ''off''])))"
  using field_types_follow_data_type
    [of "\<lparr>mk_name = ''State'', mk_property_name = ''state'',
          mk_data_type = ''enumeration'', mk_options = Some [''on'', ''off'']\<rparr>" pump "\<lambda>s. s"]
  by (simp add: pump_def keys_of_def)










lemma split_colon_free_last: "CHR '':'' \<notin> set b \<Longrightarrow> split_sep '' : '' b = [b]"
proof (induction b)
  case Nil
  then show ?case by simp
next
  case (Cons c cs)
  then show ?case by (cases cs) auto
qed

lemma split_colon_free:
  "CHR '':'' \<notin> set a \<Longrightarrow> split_sep '' : '' (a @ '' : '' @ s) = a # split_sep '' : '' s"
proof (induction a)
  case Nil
  then show ?case by simp
next
  case (Cons c cs)
  then show ?case by (cases cs) auto
qed

lemma three_part_name:
  "CHR '':'' \<notin> set A \<Longrightarrow> CHR '':'' \<notin> set rel \<Longrightarrow> CHR '':'' \<notin> set B \<Longrightarrow>
   js_split '' : '' (A @ '' : '' @ rel @ '' : '' @ B) = [A, rel, B]"
proof -
  assume a: "CHR '':'' \<notin> set A" and r: "CHR '':'' \<notin> set rel" and b: "CHR '':'' \<notin> set B"
  have "split_sep '' : '' (A @ '' : '' @ (rel @ '' : '' @ B))
        = A # split_sep '' : '' (rel @ '' : '' @ B)"
    using a by (rule split_colon_free)
  also have "split_sep '' : '' (rel @ '' : '' @ B) = rel # split_sep '' : '' B"
    using r by (rule split_colon_free)
  also have "split_sep '' : '' B = [B]"
    using b by (rule split_colon_free_last)
  finally show ?thesis unfolding js_split_def by simp
qed


section \<open>Properties of the query resolver\<close>

lemma propertyMap_dom:
  "dom (propertyMap san m) = set (map (\<lambda>k. san (mk_property_name k)) (keys_of m))"
proof -
  have "dom (fold (\<lambda>k pm. pm(san (mk_property_name k) \<mapsto> (mk_property_name k, mk_data_type k))) ks m0)
        = dom m0 \<union> set (map (\<lambda>k. san (mk_property_name k)) ks)"
    for ks :: "metatype_key list" and m0
    by (induction ks arbitrary: m0) auto
  then show ?thesis by (simp add: propertyMap_def)
qed

lemma propertyFilters_defined:
  "list_all (\<lambda>(key, v). key \<in> dom pm) args \<Longrightarrow> \<exists>ps. propertyFilters pm args = Inr ps"
proof (induction args)
  case Nil
  then show ?case by simp
next
  case (Cons a args)
  obtain key v where a: "a = (key, v)" by (cases a)
  from Cons.prems a obtain nd where nd: "pm key = Some nd" by auto
  obtain name dt where ndp: "nd = (name, dt)" by (cases nd)
  from Cons obtain ps where ps: "propertyFilters pm args = Inr ps" by auto
  show ?case using a nd ndp ps by (simp add: Let_def)
qed

lemma originalIdFilter_defined:
  "string_or_falsy v \<Longrightarrow> \<exists>ps. originalIdFilter v = Inr ps"
  by (auto simp: string_or_falsy_def originalIdFilter_def split: option.splits jsval.splits)

lemma recordFilters_defined:
  "(case r of None \<Rightarrow> True | Some ri \<Rightarrow> string_or_falsy (ri_original_id ri)) \<Longrightarrow>
   \<exists>ps. recordFilters r = Inr ps"
proof (cases r)
  case None
  then show ?thesis by (simp add: recordFilters_def)
next
  case (Some ri)
  assume "case r of None \<Rightarrow> True | Some ri \<Rightarrow> string_or_falsy (ri_original_id ri)"
  then have "string_or_falsy (ri_original_id ri)" using Some by simp
  then obtain ps where "originalIdFilter (ri_original_id ri) = Inr ps"
    using originalIdFilter_defined by blast
  then show ?thesis using Some by (simp add: recordFilters_def)
qed

lemma listNodes_impossible:
  "p \<in> set (q_predicates q) \<Longrightarrow> \<forall>n \<in> set rows. \<not> holds p n \<Longrightarrow> listNodes holds rows q = []"
proof -
  assume p: "p \<in> set (q_predicates q)" and no: "\<forall>n \<in> set rows. \<not> holds p n"
  have "filter (\<lambda>n. list_all (\<lambda>p. holds p n) (q_predicates q)) rows = []"
    using p no by (auto simp: filter_empty_conv list_all_iff)
  then show ?thesis by (simp add: listNodes_def)
qed

lemma runList_empty:
  "runList san toISOString (Fulfilled \<lparr>isError = False, error_text = t, result_value = Some []\<rparr>)
   = \<lparr>settled = Some (Rows []), logged = []\<rparr>"
  by (simp add: runList_def thenCallback_def resolve_def pending_def)

text \<open>
  C1: a resolver invocation with a \<^verbatim>\<open>_relationship\<close> filter whose edge lookup finds no
  edge builds a node query constrained by the predicate \<^verbatim>\<open>id eq 0\<close>; no stored node
  satisfies that predicate, so the query returns no row and the field resolves to the
  empty list, whatever the other filters are. The arguments are those the schema
  declares.
\<close>

theorem no_edges_no_rows:
  assumes wf: "declared_arguments san m input"
      and rel: "in_relationship input = Some ((relationship, Some (Some d # ds)) # rels)"
      and none: "findByRelationship (mt_name m) (replace_first CHR ''_'' CHR '' '' relationship)
                   (case d of [] \<Rightarrow> None | (k, _) # _ \<Rightarrow> Some k) = Some []"
      and rows: "\<forall>n \<in> set rows. \<not> holds (NodeID ''eq'' (IdNumber 0)) n"
  shows "\<exists>q. buildQuery san findByRelationship containerID m input = Inr q
            \<and> NodeID ''eq'' (IdNumber 0) \<in> set (q_predicates q)
            \<and> listNodes holds rows q = []
            \<and> resolverForMetatype san toISOString findByRelationship (listFromStore holds rows)
                 containerID m input
               = Inr \<lparr>settled = Some (Rows []), logged = []\<rparr>"
proof -
  from wf obtain recs where recs: "recordFilters (in_record input) = Inr recs"
    using recordFilters_defined [of "in_record input"] by (auto simp: declared_arguments_def)
  from wf have "list_all (\<lambda>(key, v). key \<in> dom (propertyMap san m)) (in_properties input)"
    by (simp add: declared_arguments_def propertyMap_dom)
  then obtain props where props: "propertyFilters (propertyMap san m) (in_properties input) = Inr props"
    using propertyFilters_defined by blast
  have rf: "relationshipFilter findByRelationship m (in_relationship input)
            = Inr [NodeID ''eq'' (IdNumber 0)]"
    using rel none by (simp add: relationshipFilter_def Let_def)
  define q where "q = \<lparr>q_predicates =
                           [ContainerID ''eq'' containerID, MetatypeID ''eq'' (mt_id m)]
                           @ recs @ [NodeID ''eq'' (IdNumber 0)] @ props,
                         q_loadRelationships = True,
                         q_limit = 10000\<rparr>"
  have bq: "buildQuery san findByRelationship containerID m input = Inr q"
    by (simp add: buildQuery_def recs props rf q_def)
  have mem: "NodeID ''eq'' (IdNumber 0) \<in> set (q_predicates q)"
    by (simp add: q_def)
  have empty: "listNodes holds rows q = []"
    using mem rows by (rule listNodes_impossible)
  have "resolverForMetatype san toISOString findByRelationship (listFromStore holds rows)
          containerID m input
        = Inr \<lparr>settled = Some (Rows []), logged = []\<rparr>"
    by (simp add: resolverForMetatype_def bq listFromStore_def empty runList_empty)
  with bq mem empty show ?thesis by blast
qed


lemma pumps_feeding_query_built:
  "\<exists>q. buildQuery (\<lambda>s. s) no_edges ''c1'' pump pumps_feeding = Inr q"
  by (simp add: buildQuery_def recordFilters_def originalIdFilter_def stringFilter_def
      relationshipFilter_def propertyMap_def pump_def pumps_feeding_def keys_of_def no_edges_def
      Let_def)

theorem no_edges_no_rows_witness:
  "declared_arguments (\<lambda>s. s) pump pumps_feeding
   \<and> no_edges ''Pump'' ''feeds'' (Some ''Tank'') = Some []
   \<and> \<not> id_holds (NodeID ''eq'' (IdNumber 0)) a_pump_node
   \<and> (\<exists>q. buildQuery (\<lambda>s. s) no_edges ''c1'' pump pumps_feeding = Inr q
          \<and> NodeID ''eq'' (IdNumber 0) \<in> set (q_predicates q)
          \<and> listNodes id_holds [a_pump_node] q = []
          \<and> resolverForMetatype (\<lambda>s. s) (\<lambda>d. ''1970-01-01T00:00:00.000Z'') no_edges
               (listFromStore id_holds [a_pump_node]) ''c1'' pump pumps_feeding
             = Inr \<lparr>settled = Some (Rows []), logged = []\<rparr>)"
proof -
  have wf: "declared_arguments (\<lambda>s. s) pump pumps_feeding"
    by (simp add: declared_arguments_def pump_def pumps_feeding_def keys_of_def string_or_falsy_def)
  have rel: "in_relationship pumps_feeding
             = Some ((''feeds'', Some (Some [(''Tank'', Some True)] # [])) # [])"
    by (simp add: pumps_feeding_def)
  have none: "no_edges (mt_name pump) (replace_first CHR ''_'' CHR '' '' ''feeds'')
                (case [(''Tank'', Some True)] of [] \<Rightarrow> None | (k, _) # _ \<Rightarrow> Some k) = Some []"
    by (simp add: no_edges_def)
  have z: "\<not> id_holds (NodeID ''eq'' (IdNumber 0)) a_pump_node"
    by (simp add: a_pump_node_def int_to_string_def digits.simps [of 0])
  then have rows: "\<forall>n \<in> set [a_pump_node]. \<not> id_holds (NodeID ''eq'' (IdNumber 0)) n"
    by simp
  show ?thesis
    using no_edges_no_rows [of "\<lambda>s. s" pump pumps_feeding "''feeds''" "[(''Tank'', Some True)]"
        "[]" "[]" no_edges "[a_pump_node]" id_holds "''c1''" "\<lambda>d. ''1970-01-01T00:00:00.000Z''"]
      wf rel none rows z
    by (simp add: no_edges_def)
qed

lemma buildQuery_options:
  "buildQuery san findByRelationship containerID m input = Inr q \<Longrightarrow>
   q_limit q = 10000 \<and> q_loadRelationships q"
  by (auto simp: buildQuery_def split: sum.splits)

lemma buildQuery_defined:
  assumes wf: "declared_arguments san m input"
      and rel: "in_relationship input = None"
  shows "\<exists>q. buildQuery san findByRelationship containerID m input = Inr q"
proof -
  from wf obtain recs where recs: "recordFilters (in_record input) = Inr recs"
    using recordFilters_defined [of "in_record input"] by (auto simp: declared_arguments_def)
  from wf have "list_all (\<lambda>(key, v). key \<in> dom (propertyMap san m)) (in_properties input)"
    by (simp add: declared_arguments_def propertyMap_dom)
  then obtain props where props: "propertyFilters (propertyMap san m) (in_properties input) = Inr props"
    using propertyFilters_defined by blast
  have rf: "relationshipFilter findByRelationship m (in_relationship input) = Inr []"
    using rel by (simp add: relationshipFilter_def)
  show ?thesis
    by (simp add: buildQuery_def recs props rf)
qed

lemma resolver_same_list:
  assumes "\<forall>q'. q_limit q' = 10000 \<and> q_loadRelationships q' \<longrightarrow> list q' = list' q'"
  shows "resolverForMetatype san toISOString findByRelationship list containerID m input
         = resolverForMetatype san toISOString findByRelationship list' containerID m input"
proof (cases "buildQuery san findByRelationship containerID m input")
  case (Inl e)
  then show ?thesis by (simp add: resolverForMetatype_def)
next
  case (Inr q)
  then have "q_limit q = 10000 \<and> q_loadRelationships q" by (rule buildQuery_options)
  then have "list q = list' q" using assms by blast
  then show ?thesis using Inr by (simp add: resolverForMetatype_def)
qed

text \<open>
  C10: a resolver invocation either fails while the query is built, and then runs no
  query, or runs the repository's \<^verbatim>\<open>list\<close> on the query built, which carries the limit
  10000 and loads relationships; the resolver's result is what the callbacks make of
  that one call. So the result depends on \<^verbatim>\<open>list\<close> only through queries of limit 10000,
  and with declared arguments and no relationship filter the query is always run. The
  \<^verbatim>\<open>limit\<close> and \<^verbatim>\<open>page\<close> of the \<^verbatim>\<open>_record\<close> argument are never read: changing them
  changes neither the query nor the resolver's result.
\<close>

theorem query_limit_fixed:
  "(buildQuery san findByRelationship containerID m input = Inr q \<longrightarrow>
      q_limit q = 10000 \<and> q_loadRelationships q
    \<and> resolverForMetatype san toISOString findByRelationship list containerID m input
        = Inr (runList san toISOString (list q)))
   \<and> (buildQuery san findByRelationship containerID m input = Inl e \<longrightarrow>
      resolverForMetatype san toISOString findByRelationship list containerID m input = Inl e)
   \<and> ((\<forall>q'. q_limit q' = 10000 \<and> q_loadRelationships q' \<longrightarrow> list q' = list' q') \<longrightarrow>
      resolverForMetatype san toISOString findByRelationship list containerID m input
      = resolverForMetatype san toISOString findByRelationship list' containerID m input)
   \<and> (declared_arguments san m input \<and> in_relationship input = None \<longrightarrow>
      (\<exists>q'. buildQuery san findByRelationship containerID m input = Inr q'
            \<and> q_limit q' = 10000 \<and> q_loadRelationships q'
            \<and> resolverForMetatype san toISOString findByRelationship list containerID m input
                = Inr (runList san toISOString (list q'))))
   \<and> buildQuery san findByRelationship containerID m
        (input\<lparr>in_record := Some (r\<lparr>ri_limit := l, ri_page := p\<rparr>)\<rparr>)
     = buildQuery san findByRelationship containerID m (input\<lparr>in_record := Some r\<rparr>)
   \<and> resolverForMetatype san toISOString findByRelationship list containerID m
        (input\<lparr>in_record := Some (r\<lparr>ri_limit := l, ri_page := p\<rparr>)\<rparr>)
     = resolverForMetatype san toISOString findByRelationship list containerID m
        (input\<lparr>in_record := Some r\<rparr>)"
proof -
  have run: "buildQuery san findByRelationship containerID m input = Inr q \<longrightarrow>
      q_limit q = 10000 \<and> q_loadRelationships q
    \<and> resolverForMetatype san toISOString findByRelationship list containerID m input
        = Inr (runList san toISOString (list q))"
    using buildQuery_options [of san findByRelationship containerID m input q]
    by (simp add: resolverForMetatype_def)
  have err: "buildQuery san findByRelationship containerID m input = Inl e \<longrightarrow>
      resolverForMetatype san toISOString findByRelationship list containerID m input = Inl e"
    by (simp add: resolverForMetatype_def)
  have ext: "(\<forall>q'. q_limit q' = 10000 \<and> q_loadRelationships q' \<longrightarrow> list q' = list' q') \<longrightarrow>
      resolverForMetatype san toISOString findByRelationship list containerID m input
      = resolverForMetatype san toISOString findByRelationship list' containerID m input"
    using resolver_same_list [of list list' san toISOString findByRelationship containerID m input]
    by blast
  have total: "declared_arguments san m input \<and> in_relationship input = None \<longrightarrow>
      (\<exists>q'. buildQuery san findByRelationship containerID m input = Inr q'
            \<and> q_limit q' = 10000 \<and> q_loadRelationships q'
            \<and> resolverForMetatype san toISOString findByRelationship list containerID m input
                = Inr (runList san toISOString (list q')))"
  proof
    assume a: "declared_arguments san m input \<and> in_relationship input = None"
    then obtain q' where q': "buildQuery san findByRelationship containerID m input = Inr q'"
      using buildQuery_defined [of san m input findByRelationship containerID] by blast
    have "q_limit q' = 10000 \<and> q_loadRelationships q'" using q' by (rule buildQuery_options)
    moreover have "resolverForMetatype san toISOString findByRelationship list containerID m input
                = Inr (runList san toISOString (list q'))"
      using q' by (simp add: resolverForMetatype_def)
    ultimately show "\<exists>q'. buildQuery san findByRelationship containerID m input = Inr q'
            \<and> q_limit q' = 10000 \<and> q_loadRelationships q'
            \<and> resolverForMetatype san toISOString findByRelationship list containerID m input
                = Inr (runList san toISOString (list q'))"
      using q' by blast
  qed
  have same: "buildQuery san findByRelationship containerID m
                (input\<lparr>in_record := Some (r\<lparr>ri_limit := l, ri_page := p\<rparr>)\<rparr>)
              = buildQuery san findByRelationship containerID m (input\<lparr>in_record := Some r\<rparr>)"
    by (simp add: buildQuery_def recordFilters_def cong: sum.case_cong)
  have same_r: "resolverForMetatype san toISOString findByRelationship list containerID m
        (input\<lparr>in_record := Some (r\<lparr>ri_limit := l, ri_page := p\<rparr>)\<rparr>)
     = resolverForMetatype san toISOString findByRelationship list containerID m
        (input\<lparr>in_record := Some r\<rparr>)"
    using same by (simp add: resolverForMetatype_def)
  show ?thesis
    apply (intro conjI)
         apply (rule run)
        apply (rule err)
       apply (rule ext)
      apply (rule total)
     apply (rule same)
    apply (rule same_r)
    done
qed

theorem query_limit_fixed_witness:
  "(\<exists>q. buildQuery (\<lambda>s. s) no_edges ''c1'' pump pumps_feeding = Inr q \<and> q_limit q = 10000
        \<and> q_loadRelationships q
        \<and> resolverForMetatype (\<lambda>s. s) iso_epoch no_edges list_failed ''c1'' pump pumps_feeding
            = Inr (runList (\<lambda>s. s) iso_epoch (list_failed q)))
   \<and> ri_limit (the (in_record pumps_feeding)) = Some 5
   \<and> ri_page (the (in_record pumps_feeding)) = Some 2
   \<and> declared_arguments (\<lambda>s. s) pump (pumps_feeding\<lparr>in_relationship := None\<rparr>)
   \<and> (\<exists>q. buildQuery (\<lambda>s. s) no_edges ''c1'' pump (pumps_feeding\<lparr>in_relationship := None\<rparr>) = Inr q
        \<and> q_limit q = 10000)
   \<and> resolverForMetatype (\<lambda>s. s) iso_epoch no_edges list_failed ''c1'' pump
        (pumps_feeding\<lparr>in_relationship := Some []\<rparr>) = Inl TypeError"
proof -
  obtain q where q: "buildQuery (\<lambda>s. s) no_edges ''c1'' pump pumps_feeding = Inr q"
    using pumps_feeding_query_built by blast
  have one: "\<exists>q. buildQuery (\<lambda>s. s) no_edges ''c1'' pump pumps_feeding = Inr q \<and> q_limit q = 10000
        \<and> q_loadRelationships q
        \<and> resolverForMetatype (\<lambda>s. s) iso_epoch no_edges list_failed ''c1'' pump pumps_feeding
            = Inr (runList (\<lambda>s. s) iso_epoch (list_failed q))"
    using q query_limit_fixed [of "\<lambda>s. s" no_edges "''c1''" pump pumps_feeding q iso_epoch list_failed]
    by blast
  have args: "ri_limit (the (in_record pumps_feeding)) = Some 5
              \<and> ri_page (the (in_record pumps_feeding)) = Some 2"
    by (simp add: pumps_feeding_def)
  have wf: "declared_arguments (\<lambda>s. s) pump (pumps_feeding\<lparr>in_relationship := None\<rparr>)"
    by (simp add: declared_arguments_def pump_def pumps_feeding_def keys_of_def string_or_falsy_def)
  have norel: "in_relationship (pumps_feeding\<lparr>in_relationship := None\<rparr>) = None"
    by simp
  have two: "\<exists>q. buildQuery (\<lambda>s. s) no_edges ''c1'' pump (pumps_feeding\<lparr>in_relationship := None\<rparr>) = Inr q
        \<and> q_limit q = 10000"
    using wf norel
      query_limit_fixed [of "\<lambda>s. s" no_edges "''c1''" pump "pumps_feeding\<lparr>in_relationship := None\<rparr>"
        _ iso_epoch list_failed]
    by blast
  have bad: "buildQuery (\<lambda>s. s) no_edges ''c1'' pump (pumps_feeding\<lparr>in_relationship := Some []\<rparr>)
             = Inl TypeError"
    by (simp add: buildQuery_def recordFilters_def originalIdFilter_def relationshipFilter_def
        pumps_feeding_def)
  have three: "resolverForMetatype (\<lambda>s. s) iso_epoch no_edges list_failed ''c1'' pump
        (pumps_feeding\<lparr>in_relationship := Some []\<rparr>) = Inl TypeError"
    using bad
      query_limit_fixed [of "\<lambda>s. s" no_edges "''c1''" pump "pumps_feeding\<lparr>in_relationship := Some []\<rparr>"
        _ iso_epoch list_failed TypeError]
    by blast
  from one args wf two three show ?thesis by blast
qed


lemma runList_settled: "\<exists>v. settled (runList san toISOString outcome) = Some v"
  by (auto simp: runList_def thenCallback_def catchCallback_def resolve_def pending_def
      logError_def Let_def split: list_outcome.splits option.splits)

lemma runList_isError:
  "isError r \<Longrightarrow>
   runList san toISOString (Fulfilled r)
   = \<lparr>settled = Some (Rows []), logged = [''unable to list nodes '' @ error_text r]\<rparr>"
  by (auto simp: runList_def thenCallback_def catchCallback_def resolve_def pending_def
      logError_def Let_def split: option.splits)

lemma runList_rejected:
  "runList san toISOString (Rejected e) = \<lparr>settled = Some (ErrorValue e), logged = []\<rparr>"
  by (simp add: runList_def catchCallback_def resolve_def pending_def)

text \<open>
  C5, amended: in a resolver invocation that reaches the node repository query, when the
  query answers with an error result the error is logged and the field resolves to the
  empty list; when the query's promise is rejected nothing is logged and the field
  resolves to the caught exception itself. In both cases, and in every other, the
  resolver's promise is resolved, never left pending or rejected.
\<close>

theorem list_failure_resolution:
  assumes "buildQuery san findByRelationship containerID m input = Inr q"
  shows "(\<forall>r. list q = Fulfilled r \<and> isError r \<longrightarrow>
            resolverForMetatype san toISOString findByRelationship list containerID m input
            = Inr \<lparr>settled = Some (Rows []),
                   logged = [''unable to list nodes '' @ error_text r]\<rparr>)
       \<and> (\<forall>e. list q = Rejected e \<longrightarrow>
            resolverForMetatype san toISOString findByRelationship list containerID m input
            = Inr \<lparr>settled = Some (ErrorValue e), logged = []\<rparr>)
       \<and> (\<exists>st. resolverForMetatype san toISOString findByRelationship list containerID m input
                 = Inr st \<and> settled st \<noteq> None)"
  using assms
  by (simp add: resolverForMetatype_def runList_isError runList_rejected runList_settled)

theorem list_failure_resolution_witness:
  "resolverForMetatype (\<lambda>s. s) (\<lambda>d. ''1970-01-01T00:00:00.000Z'') no_edges list_failed
     ''c1'' pump pumps_feeding
   = Inr \<lparr>settled = Some (Rows []), logged = [''unable to list nodes timeout'']\<rparr>"
proof -
  obtain q where q: "buildQuery (\<lambda>s. s) no_edges ''c1'' pump pumps_feeding = Inr q"
    using pumps_feeding_query_built by blast
  show ?thesis
    using list_failure_resolution [OF q, of list_failed "\<lambda>d. ''1970-01-01T00:00:00.000Z''"]
    by (simp add: list_failed_def)
qed

text \<open>
  C5, as the claim states it, fails when the repository throws: the \<^verbatim>\<open>catch\<close> handler
  calls \<^verbatim>\<open>resolve(e)\<close>, so the field resolves to the exception, not to an empty result
  set, and nothing is logged.
\<close>

theorem list_rejected_counterexample:
  "resolverForMetatype keep_name iso_epoch no_edges list_rejected ''c1'' pump pumps_feeding
   = Inr \<lparr>settled = Some (ErrorValue (Thrown ''connection terminated'')), logged = []\<rparr>
   \<and> resolverForMetatype keep_name iso_epoch no_edges list_rejected ''c1'' pump pumps_feeding
   \<noteq> Inr \<lparr>settled = Some (Rows []), logged = [''unable to list nodes connection terminated'']\<rparr>"
proof -
  have k: "keep_name = (\<lambda>s. s)"
    by (rule ext) (simp add: keep_name_def)
  obtain q where q: "buildQuery (\<lambda>s. s) no_edges ''c1'' pump pumps_feeding = Inr q"
    using pumps_feeding_query_built by blast
  then show ?thesis
    by (simp add: k resolverForMetatype_def runList_rejected list_rejected_def)
qed

section \<open>Properties of the type mapping repository\<close>

lemma failure_Validated: "transformation_failure (Validated tr v) = (v \<noteq> None)"
  by (cases v) auto

lemma failure_BulkDelete: "transformation_failure (BulkDelete tx trs r) = is_failure r"
  by (cases r) auto

lemma failure_BulkUpdate: "transformation_failure (BulkUpdate tx trs r) = is_failure r"
  by (cases r) auto

lemma failure_BulkCreate: "transformation_failure (BulkCreate tx trs r) = is_failure r"
  by (cases r) auto

lemmas failure_simps = failure_Validated failure_BulkDelete failure_BulkUpdate failure_BulkCreate

lemma validateLoop_events:
  "validateLoop env parent trs = (r, trs', evs) \<Longrightarrow>
   (\<forall>e \<in> set evs. \<not> is_commit e \<and> \<not> is_rollback e)
   \<and> ((\<exists>e \<in> set evs. transformation_failure e) \<longleftrightarrow> r \<noteq> None)"
proof (induction trs arbitrary: r trs' evs)
  case Nil
  then show ?case by auto
next
  case (Cons tr rest)
  show ?case
  proof (cases "transformationValidationErrors env (tr\<lparr>tt_type_mapping_id := parent\<rparr>)")
    case (Some es)
    then show ?thesis using Cons.prems by (auto simp: Let_def failure_simps)
  next
    case None
    obtain r1 trs1 evs1 where rec: "validateLoop env parent rest = (r1, trs1, evs1)"
      by (cases "validateLoop env parent rest") auto
    from Cons.IH [OF rec] rec None Cons.prems show ?thesis
      by (auto simp: Let_def failure_simps)
  qed
qed

lemma bulkWrites_events:
  "bulkWrites env userID tx trs = (r, evs) \<Longrightarrow>
   (\<forall>e \<in> set evs. \<not> is_commit e \<and> \<not> is_rollback e)
   \<and> ((\<exists>e \<in> set evs. transformation_failure e) \<longleftrightarrow> is_failure r)"
  by (auto simp: bulkWrites_def Let_def failure_simps split: if_splits result.splits)

lemma transformationsIn_external:
  "transformationsIn env userID t tx False = (r, t', evs) \<Longrightarrow>
   (\<forall>e \<in> set evs. \<not> is_commit e \<and> \<not> is_rollback e)
   \<and> ((\<exists>e \<in> set evs. transformation_failure e) \<longleftrightarrow> is_failure r)"
proof -
  assume run: "transformationsIn env userID t tx False = (r, t', evs)"
  define removed where "removed = (case tm_removedTransformations t of None \<Rightarrow> [] | Some rs \<Rightarrow> rs)"
  define trs0 where "trs0 = (case tm_transformations t of None \<Rightarrow> [] | Some ts \<Rightarrow> ts)"
  obtain vr vtrs vevs where v: "validateLoop env (tm_id t) trs0 = (vr, vtrs, vevs)"
    by (cases "validateLoop env (tm_id t) trs0") auto
  obtain wr wevs where w: "bulkWrites env userID tx vtrs = (wr, wevs)"
    by (cases "bulkWrites env userID tx vtrs") auto
  note ve = validateLoop_events [OF v]
  note we = bulkWrites_events [OF w]
  show ?thesis
    using run ve we v w
    unfolding transformationsIn_def removed_def [symmetric] trs0_def [symmetric] Let_def rollbackIf_def
    by (auto simp: failure_simps split: if_splits result.splits option.splits)
qed


lemma successful_commit_is_commit: "is_successful_commit e \<Longrightarrow> is_commit e"
  by (cases e rule: is_successful_commit.cases) auto

lemma saveTransformations_external:
  "saveTransformations env userID t (Some tx) = (r, t', evs) \<Longrightarrow>
   (\<forall>e \<in> set evs. \<not> is_commit e \<and> \<not> is_rollback e)
   \<and> ((\<exists>e \<in> set evs. transformation_failure e) \<longleftrightarrow> is_failure r)"
proof -
  assume run: "saveTransformations env userID t (Some tx) = (r, t', evs)"
  then have "transformationsIn env userID t tx False = (r, t', evs)"
    by (auto simp: saveTransformations_def openTransaction_def split: prod.splits)
  then show ?thesis by (rule transformationsIn_external)
qed

lemma optional_transformations:
  "(if saveTrans then saveTransformations env userID t (Some tx) else (Success True, t, []))
     = (r, t', evs) \<Longrightarrow>
   (\<forall>e \<in> set evs. \<not> is_commit e \<and> \<not> is_rollback e)
   \<and> ((\<exists>e \<in> set evs. transformation_failure e) \<longleftrightarrow> is_failure r)"
  using saveTransformations_external [of env userID t tx r t' evs]
  by (cases saveTrans) auto

lemma saveExisting_internal:
  assumes "saveExisting env userID t saveTrans tx True = (r, t', evs)"
  shows "length (filter is_commit evs) \<le> 1
       \<and> ((\<exists>b. r = Success b) \<longrightarrow> evs \<noteq> [] \<and> is_successful_commit (last evs))
       \<and> ((\<exists>e \<in> set evs. is_successful_commit e) \<longrightarrow> (\<exists>b. r = Success b))
       \<and> (is_failure r \<longrightarrow> evs \<noteq> [] \<and> is_rollback (last evs))
       \<and> ((\<exists>e \<in> set evs. transformation_failure e) \<longrightarrow>
            is_failure r \<and> (\<forall>e \<in> set evs. \<not> is_commit e))"
proof (cases "mapperUpdate env userID t tx")
  case (Failure e)
  then show ?thesis using assms by (auto simp: saveExisting_def)
next
  case (Success row)
  obtain tr t2 evsT where st:
    "(if saveTrans
      then saveTransformations env userID (assignParent (objectAssign t row)) (Some tx)
      else (Success True, assignParent (objectAssign t row), []))
     = (tr, t2, evsT)"
    by (metis prod_cases3)
  note facts0 = optional_transformations [OF st]
  have nosc: "\<forall>e \<in> set evsT. \<not> is_successful_commit e"
    using facts0 successful_commit_is_commit by blast
  note facts = facts0 nosc
  show ?thesis
    using assms facts
    by (auto simp: saveExisting_def Success st Let_def rollbackIf_def split: result.splits
        dest: successful_commit_is_commit)
qed

lemma saveNew_internal:
  assumes "saveNew env userID t saveTrans tx True = (r, t', evs)"
  shows "length (filter is_commit evs) \<le> 1
       \<and> ((\<exists>b. r = Success b) \<longrightarrow> evs \<noteq> [] \<and> is_successful_commit (last evs))
       \<and> ((\<exists>e \<in> set evs. is_successful_commit e) \<longrightarrow> (\<exists>b. r = Success b))
       \<and> (is_failure r \<longrightarrow> evs \<noteq> [] \<and> is_rollback (last evs))
       \<and> ((\<exists>e \<in> set evs. transformation_failure e) \<longrightarrow>
            is_failure r \<and> (\<forall>e \<in> set evs. \<not> is_commit e))"
proof (cases "mapperCreateOrUpdate env userID t tx")
  case (Failure e)
  then show ?thesis using assms by (auto simp: saveNew_def rollbackIf_def)
next
  case (Success row)
  obtain tr t2 evsT where st:
    "(if saveTrans
      then saveTransformations env userID (assignParent (objectAssign t row)) (Some tx)
      else (Success True, assignParent (objectAssign t row), []))
     = (tr, t2, evsT)"
    by (metis prod_cases3)
  note facts0 = optional_transformations [OF st]
  have nosc: "\<forall>e \<in> set evsT. \<not> is_successful_commit e"
    using facts0 successful_commit_is_commit by blast
  note facts = facts0 nosc
  show ?thesis
    using assms facts
    by (auto simp: saveNew_def Success st Let_def rollbackIf_def split: result.splits
        dest: successful_commit_is_commit)
qed


lemma applyEvent_persisted:
  "\<not> is_successful_commit e \<Longrightarrow> persisted (applyEvent e s) = persisted s"
  by (cases "(e, s)" rule: applyEvent.cases) (auto simp: writeRows_def)

lemma applyEvents_persisted:
  "\<forall>e \<in> set evs. \<not> is_successful_commit e \<Longrightarrow> persisted (applyEvents evs s) = persisted s"
  unfolding applyEvents_def
  by (induction evs arbitrary: s) (auto simp: applyEvent_persisted)

lemma applyEvents_rolled_back:
  "evs \<noteq> [] \<Longrightarrow> is_rollback (last evs) \<Longrightarrow> working (applyEvents evs s) = None"
proof -
  assume ne: "evs \<noteq> []" and rb: "is_rollback (last evs)"
  obtain tx where l: "last evs = RollbackTransaction tx"
    using rb by (cases "last evs" rule: is_rollback.cases) auto
  have "evs = butlast evs @ [last evs]" using ne by simp
  then have "applyEvents evs s = applyEvent (last evs) (applyEvents (butlast evs) s)"
    unfolding applyEvents_def by (metis fold_append fold_simps comp_apply)
  then show ?thesis using l by simp
qed

text \<open>
  C6: in every save that opens its own transaction, a transformation that fails
  validation or a transformation bulk write (delete, update, create) that fails makes
  the save fail, the last call is the rollback of that transaction, no commit is
  attempted, and the persisted transformations are what they were before the save,
  with no transaction left open. In every such save the transaction is committed at
  most once; a successful save ends with the successful commit, and a commit succeeds
  only in a successful save. More generally, every failing save that opened a
  transaction ends with its rollback.
\<close>

theorem save_transaction_discipline:
  assumes "save env userID t saveTrans None = (r, t', evs)"
  shows "length (filter is_commit evs) \<le> 1
       \<and> ((\<exists>b. r = Success b) \<longrightarrow> evs \<noteq> [] \<and> is_successful_commit (last evs))
       \<and> ((\<exists>e \<in> set evs. is_successful_commit e) \<longrightarrow> (\<exists>b. r = Success b))
       \<and> ((\<exists>e \<in> set evs. transformation_failure e) \<longrightarrow>
            is_failure r \<and> is_rollback (last evs) \<and> (\<forall>e \<in> set evs. \<not> is_commit e)
            \<and> persisted (applyEvents evs s) = persisted s
            \<and> working (applyEvents evs s) = None)
       \<and> (is_failure r \<and> (\<exists>tx. StartTransaction (Success tx) \<in> set evs) \<longrightarrow>
            is_rollback (last evs) \<and> persisted (applyEvents evs s) = persisted s
            \<and> working (applyEvents evs s) = None)"
proof (cases "mappingValidationErrors env t")
  case (Some errors)
  then show ?thesis using assms by (auto simp: save_def)
next
  case None
  show ?thesis
  proof (cases "startTransaction env")
    case (Failure e)
    then show ?thesis using assms None by (auto simp: save_def openTransaction_def)
  next
    case (Success tx)
    obtain r1 t1 evs1 where branch:
      "(if truthy_str (tm_id t) then saveExisting env userID t saveTrans tx True
        else saveNew env userID t saveTrans tx True) = (r1, t1, evs1)"
      by (metis prod_cases3)
    have shape: "r = r1" "evs = StartTransaction (Success tx) # evs1"
      using assms None Success branch by (auto simp: save_def openTransaction_def)
    have b: "length (filter is_commit evs1) \<le> 1
       \<and> ((\<exists>b. r1 = Success b) \<longrightarrow> evs1 \<noteq> [] \<and> is_successful_commit (last evs1))
       \<and> ((\<exists>e \<in> set evs1. is_successful_commit e) \<longrightarrow> (\<exists>b. r1 = Success b))
       \<and> (is_failure r1 \<longrightarrow> evs1 \<noteq> [] \<and> is_rollback (last evs1))
       \<and> ((\<exists>e \<in> set evs1. transformation_failure e) \<longrightarrow>
            is_failure r1 \<and> (\<forall>e \<in> set evs1. \<not> is_commit e))"
      using branch saveExisting_internal [of env userID t saveTrans tx r1 t1 evs1]
        saveNew_internal [of env userID t saveTrans tx r1 t1 evs1]
      by (cases "truthy_str (tm_id t)") simp_all
    have c1: "length (filter is_commit evs) \<le> 1" using b shape by simp
    have c2: "(\<exists>b. r = Success b) \<longrightarrow> evs \<noteq> [] \<and> is_successful_commit (last evs)"
      using b shape by auto
    have c3: "(\<exists>e \<in> set evs. is_successful_commit e) \<longrightarrow> (\<exists>b. r = Success b)"
      using b shape by auto
    have fail: "is_failure r \<Longrightarrow>
                is_rollback (last evs) \<and> persisted (applyEvents evs s) = persisted s
                \<and> working (applyEvents evs s) = None"
    proof -
      assume f: "is_failure r"
      then have ne: "evs1 \<noteq> []" and rb: "is_rollback (last evs1)" using b shape by auto
      have rb': "is_rollback (last evs)" using ne rb shape by simp
      have "\<forall>e \<in> set evs1. \<not> is_successful_commit e"
        using b f shape by (cases r1) auto
      then have "\<forall>e \<in> set evs. \<not> is_successful_commit e" using shape by simp
      then have p: "persisted (applyEvents evs s) = persisted s" by (rule applyEvents_persisted)
      have w: "working (applyEvents evs s) = None"
        using applyEvents_rolled_back [of evs s] rb' shape by simp
      from rb' p w show ?thesis by simp
    qed
    have c4: "(\<exists>e \<in> set evs. transformation_failure e) \<longrightarrow>
            is_failure r \<and> is_rollback (last evs) \<and> (\<forall>e \<in> set evs. \<not> is_commit e)
            \<and> persisted (applyEvents evs s) = persisted s
            \<and> working (applyEvents evs s) = None"
    proof
      assume "\<exists>e \<in> set evs. transformation_failure e"
      then have "\<exists>e \<in> set evs1. transformation_failure e" using shape by auto
      then have f: "is_failure r" and nc: "\<forall>e \<in> set evs. \<not> is_commit e"
        using b shape by auto
      from f nc fail [OF f] show "is_failure r \<and> is_rollback (last evs) \<and> (\<forall>e \<in> set evs. \<not> is_commit e)
            \<and> persisted (applyEvents evs s) = persisted s
            \<and> working (applyEvents evs s) = None" by simp
    qed
    have c5: "is_failure r \<and> (\<exists>tx. StartTransaction (Success tx) \<in> set evs) \<longrightarrow>
            is_rollback (last evs) \<and> persisted (applyEvents evs s) = persisted s
            \<and> working (applyEvents evs s) = None"
      using fail by blast
    from c1 c2 c3 c4 c5 show ?thesis by blast
  qed
qed

theorem save_transaction_discipline_witness:
  "(\<exists>e \<in> set (snd (snd (save strict_env ''u1'' new_mapping True None))). transformation_failure e)
   \<and> is_failure (fst (save strict_env ''u1'' new_mapping True None))
   \<and> is_rollback (last (snd (snd (save strict_env ''u1'' new_mapping True None))))
   \<and> persisted (applyEvents (snd (snd (save strict_env ''u1'' new_mapping True None))) empty_store)
       = []"
proof -
  have h: "\<exists>e \<in> set (snd (snd (save strict_env ''u1'' new_mapping True None))). transformation_failure e"
    by (simp add: save_def saveNew_def saveTransformations_def transformationsIn_def
        openTransaction_def strict_env_def new_mapping_def blank_transformation_def
        truthy_str_def assignParent_def objectAssign_def rollbackIf_def Let_def)
  have p: "save strict_env ''u1'' new_mapping True None
           = (fst (save strict_env ''u1'' new_mapping True None),
              fst (snd (save strict_env ''u1'' new_mapping True None)),
              snd (snd (save strict_env ''u1'' new_mapping True None)))"
    by simp
  from save_transaction_discipline [OF p, of empty_store] h show ?thesis
    by (simp add: empty_store_def)
qed

lemma cache_hit_reads_no_store:
  "cache st (idKey env (Some i)) = Some cached \<Longrightarrow>
   findByID env i loadTransformations st
   = (Success cached, st\<lparr>calls := calls st @ [CacheGet (idKey env (Some i))]\<rparr>)"
  by (simp add: findByID_def Let_def)

lemma cache_hit_by_shape_reads_no_store:
  "cache st (shapeKey env (Some dataSourceID) (Some shapeHash)) = Some cached \<Longrightarrow>
   findByShapeHash env shapeHash dataSourceID loadTransformations st
   = (Success cached,
      st\<lparr>calls := calls st @ [CacheGet (shapeKey env (Some dataSourceID) (Some shapeHash))]\<rparr>)"
  by (simp add: findByShapeHash_def Let_def)

text \<open>
  C7 does not hold of the code. The cache is consulted first, and on a hit the store is
  not read (the two lemmas above). But after a miss, \<^verbatim>\<open>setCache\<close> is called whenever
  the mapping was found and transformations were wanted, also when listing the
  transformations failed: \<^verbatim>\<open>findByID\<close> then caches, under both keys, the mapping as the
  mapper returned it, without its transformations.
\<close>

theorem findByID_caches_partial_mapping:
  "listForTypeMapping listing_fails (Some ''9'') = Failure ''connection terminated''
   \<and> fst (findByID listing_fails ''9'' True cold_cache) = Success stored_mapping
   \<and> tm_transformations stored_mapping = None
   \<and> cache (snd (findByID listing_fails ''9'' True cold_cache)) ''data_type_mappings:9''
       = Some stored_mapping
   \<and> cache (snd (findByID listing_fails ''9'' True cold_cache))
        ''data_type_mappings:dataSourceID:7:shapeHash:c0ffee''
       = Some stored_mapping
   \<and> calls (snd (findByID listing_fails ''9'' True cold_cache))
       = [CacheGet ''data_type_mappings:9'', Retrieve ''9'', ListForTypeMapping (Some ''9''),
          CacheSet ''data_type_mappings:9'' stored_mapping,
          CacheSet ''data_type_mappings:dataSourceID:7:shapeHash:c0ffee'' stored_mapping]"
  by (simp add: findByID_def loadAndCache_def setCache_def cacheSet_def idKey_def shapeKey_def
      template_def listing_fails_def cold_cache_def stored_mapping_def Let_def)

text \<open>
  C8, amended: \<^verbatim>\<open>prepareForImport\<close> with a separate destination container clears the
  mapping's id, container id, data source id and audit fields, and of every
  transformation the id, the mapping id, the container and data source ids, the metatype
  and relationship pair ids, the shape hash, the audit fields and the key ids of every
  key; the mapping's own shape hash is kept. The mapping that \<^verbatim>\<open>importToDataSource\<close>
  then saves has no id, the target's container and data source ids, and is inactive.
\<close>

theorem prepareForImport_clears_identity:
  "tm_id (prepareForImport populateKeys t True) = None
   \<and> tm_container_id (prepareForImport populateKeys t True) = None
   \<and> tm_data_source_id (prepareForImport populateKeys t True) = None
   \<and> tm_created_at (prepareForImport populateKeys t True) = None
   \<and> tm_created_by (prepareForImport populateKeys t True) = None
   \<and> tm_modified_at (prepareForImport populateKeys t True) = None
   \<and> tm_modified_by (prepareForImport populateKeys t True) = None
   \<and> tm_shape_hash (prepareForImport populateKeys t True) = tm_shape_hash t
   \<and> (\<forall>trs. tm_transformations (prepareForImport populateKeys t True) = Some trs \<longrightarrow>
        (\<forall>tr \<in> set trs.
           tt_id tr = None \<and> tt_type_mapping_id tr = None \<and> tt_container_id tr = None
         \<and> tt_data_source_id tr = None \<and> tt_shape_hash tr = None
         \<and> tt_metatype_id tr = None \<and> tt_metatype_relationship_pair_id tr = None
         \<and> tt_created_at tr = None \<and> tt_created_by tr = None
         \<and> tt_modified_at tr = None \<and> tt_modified_by tr = None
         \<and> (\<forall>k \<in> set (tt_keys tr).
               km_metatype_key_id k = None \<and> km_metatype_relationship_key_id k = None)))
   \<and> tm_id (importPrepared populateKeys backfillIDs target t) = None
   \<and> tm_container_id (importPrepared populateKeys backfillIDs target t) = ds_container_id target
   \<and> tm_data_source_id (importPrepared populateKeys backfillIDs target t) = ds_id target
   \<and> \<not> tm_active (importPrepared populateKeys backfillIDs target t)"
proof -
  have tr: "tt_id tr = None \<and> tt_type_mapping_id tr = None \<and> tt_container_id tr = None
         \<and> tt_data_source_id tr = None \<and> tt_shape_hash tr = None
         \<and> tt_metatype_id tr = None \<and> tt_metatype_relationship_pair_id tr = None
         \<and> tt_created_at tr = None \<and> tt_created_by tr = None
         \<and> tt_modified_at tr = None \<and> tt_modified_by tr = None
         \<and> (\<forall>k \<in> set (tt_keys tr).
               km_metatype_key_id k = None \<and> km_metatype_relationship_key_id k = None)"
    if "tr = prepareTransformation populateKeys True tr0" for tr tr0
    using that by (auto simp: prepareTransformation_def Let_def)
  have trs: "\<forall>trs. tm_transformations (prepareForImport populateKeys t True) = Some trs \<longrightarrow>
        (\<forall>tr \<in> set trs.
           tt_id tr = None \<and> tt_type_mapping_id tr = None \<and> tt_container_id tr = None
         \<and> tt_data_source_id tr = None \<and> tt_shape_hash tr = None
         \<and> tt_metatype_id tr = None \<and> tt_metatype_relationship_pair_id tr = None
         \<and> tt_created_at tr = None \<and> tt_created_by tr = None
         \<and> tt_modified_at tr = None \<and> tt_modified_by tr = None
         \<and> (\<forall>k \<in> set (tt_keys tr).
               km_metatype_key_id k = None \<and> km_metatype_relationship_key_id k = None))"
  proof (intro allI impI ballI)
    fix trs tr'
    assume a: "tm_transformations (prepareForImport populateKeys t True) = Some trs"
       and m: "tr' \<in> set trs"
    from a obtain old where "trs = map (prepareTransformation populateKeys True) old"
      by (cases "tm_transformations t") (auto simp: prepareForImport_def Let_def)
    with m obtain tr0 where "tr' = prepareTransformation populateKeys True tr0" by auto
    then show "tt_id tr' = None \<and> tt_type_mapping_id tr' = None \<and> tt_container_id tr' = None
         \<and> tt_data_source_id tr' = None \<and> tt_shape_hash tr' = None
         \<and> tt_metatype_id tr' = None \<and> tt_metatype_relationship_pair_id tr' = None
         \<and> tt_created_at tr' = None \<and> tt_created_by tr' = None
         \<and> tt_modified_at tr' = None \<and> tt_modified_by tr' = None
         \<and> (\<forall>k \<in> set (tt_keys tr').
               km_metatype_key_id k = None \<and> km_metatype_relationship_key_id k = None)"
      by (rule tr)
  qed
  have mapping: "tm_id (prepareForImport populateKeys t True) = None
   \<and> tm_container_id (prepareForImport populateKeys t True) = None
   \<and> tm_data_source_id (prepareForImport populateKeys t True) = None
   \<and> tm_created_at (prepareForImport populateKeys t True) = None
   \<and> tm_created_by (prepareForImport populateKeys t True) = None
   \<and> tm_modified_at (prepareForImport populateKeys t True) = None
   \<and> tm_modified_by (prepareForImport populateKeys t True) = None
   \<and> tm_shape_hash (prepareForImport populateKeys t True) = tm_shape_hash t"
    by (simp add: prepareForImport_def Let_def)
  have imp: "tm_id (importPrepared populateKeys backfillIDs target t) = None
   \<and> tm_container_id (importPrepared populateKeys backfillIDs target t) = ds_container_id target
   \<and> tm_data_source_id (importPrepared populateKeys backfillIDs target t) = ds_id target
   \<and> \<not> tm_active (importPrepared populateKeys backfillIDs target t)"
    by (simp add: importPrepared_def prepareForImport_def Let_def split: option.splits)
  from mapping trs imp show ?thesis by blast
qed

theorem prepareForImport_clears_identity_witness:
  "tm_id (prepareForImport populate_nothing
            (stored_mapping\<lparr>tm_transformations := Some [stored_transformation]\<rparr>) True) = None
   \<and> map tt_id (the (tm_transformations (prepareForImport populate_nothing
            (stored_mapping\<lparr>tm_transformations := Some [stored_transformation]\<rparr>) True))) = [None]
   \<and> map (map km_metatype_key_id \<circ> tt_keys) (the (tm_transformations (prepareForImport populate_nothing
            (stored_mapping\<lparr>tm_transformations := Some [stored_transformation]\<rparr>) True))) = [[None]]"
proof -
  have s: "tm_transformations (prepareForImport populate_nothing
            (stored_mapping\<lparr>tm_transformations := Some [stored_transformation]\<rparr>) True)
           = Some [prepareTransformation populate_nothing True stored_transformation]"
    by (simp add: prepareForImport_def Let_def)
  have k: "tt_keys (prepareTransformation populate_nothing True stored_transformation)
           = [\<lparr>km_key = Some ''flow'', km_metatype_key_id = None,
                km_metatype_relationship_key_id = None\<rparr>]"
    by (simp add: prepareTransformation_def populate_nothing_def stored_transformation_def Let_def)
  from prepareForImport_clears_identity
         [of populate_nothing "stored_mapping\<lparr>tm_transformations := Some [stored_transformation]\<rparr>"]
       s k
  show ?thesis by simp
qed

text \<open>
  C8, as the claim states it, fails for the mapping's shape hash: \<^verbatim>\<open>prepareForImport\<close>
  never assigns \<^verbatim>\<open>typeMapping.shape_hash\<close>, so the prepared mapping still carries it.
\<close>

theorem prepareForImport_keeps_shape_hash_counterexample:
  "tm_shape_hash stored_mapping = Some ''c0ffee''
   \<and> tm_shape_hash (prepareForImport populate_nothing stored_mapping True) = Some ''c0ffee''
   \<and> tm_shape_hash (prepareForImport populate_nothing stored_mapping True) \<noteq> None"
  by (simp add: prepareForImport_def stored_mapping_def Let_def)

section \<open>Properties of the changelist repository\<close>

lemma status_update_keeps_ids:
  "map cl_id (map (\<lambda>c. if cl_id c = i
                          then c\<lparr>cl_status := s, cl_modified_at := n, cl_modified_by := u\<rparr>
                          else c) (xs :: changelist_row list)) = map cl_id xs"
  by (induction xs) simp_all

lemma status_update_sets_status:
  assumes "c \<in> set (map (\<lambda>c. if cl_id c = i
                          then c\<lparr>cl_status := s, cl_modified_at := n, cl_modified_by := u\<rparr>
                          else c) (xs :: changelist_row list))"
      and "cl_id c = i"
  shows "cl_status c = s"
proof -
  define f :: "changelist_row \<Rightarrow> changelist_row" where "f = (\<lambda>c. if cl_id c = i
                          then c\<lparr>cl_status := s, cl_modified_at := n, cl_modified_by := u\<rparr>
                          else c)"
  have step: "cl_id (f a) = i \<longrightarrow> cl_status (f a) = s" for a
    by (simp add: f_def)
  from assms(1) have "c \<in> set (map f xs)" by (simp only: f_def)
  then obtain a where "c = f a" by auto
  with step assms(2) show ?thesis by blast
qed


text \<open>
  C9: when the delete statement runs, \<^verbatim>\<open>revokeApproval\<close> succeeds and the approvals
  table afterwards holds exactly the rows of the other changelists, each as it was: the
  rows of this changelist are gone, not marked or changed. When the status statement
  runs, every changelist of that id has the status rejected, and no changelist is added
  or removed.
\<close>

theorem revokeApproval_deletes_and_rejects:
  "(deleteOk env \<longrightarrow>
      fst (revokeApproval env changelistID approverID db) = Success True
    \<and> approvals (snd (revokeApproval env changelistID approverID db))
        = filter (\<lambda>a. ap_changelist_id a \<noteq> changelistID) (approvals db)
    \<and> (\<forall>a \<in> set (approvals (snd (revokeApproval env changelistID approverID db))).
          ap_changelist_id a \<noteq> changelistID \<and> a \<in> set (approvals db)))
   \<and> (setStatusOk env \<longrightarrow>
      (\<forall>c \<in> set (changelists (snd (revokeApproval env changelistID approverID db))).
          cl_id c = changelistID \<longrightarrow> cl_status c = ''rejected'')
    \<and> map cl_id (changelists (snd (revokeApproval env changelistID approverID db)))
        = map cl_id (changelists db))"
proof -
  define db1 where "db1 = snd (SetStatus env changelistID approverID ''rejected'' db)"
  have run: "revokeApproval env changelistID approverID db = DeleteByChangelist env changelistID db1"
    by (simp add: revokeApproval_def db1_def)
  have ap1: "approvals db1 = approvals db"
    by (simp add: db1_def SetStatus_def)
  have cl2: "changelists (snd (DeleteByChangelist env changelistID db1)) = changelists db1"
    by (simp add: DeleteByChangelist_def)
  have del: "deleteOk env \<Longrightarrow>
      fst (DeleteByChangelist env changelistID db1) = Success True
    \<and> approvals (snd (DeleteByChangelist env changelistID db1))
        = filter (\<lambda>a. ap_changelist_id a \<noteq> changelistID) (approvals db)"
    by (simp add: DeleteByChangelist_def ap1)
  have st: "setStatusOk env \<Longrightarrow>
      changelists db1
      = map (\<lambda>c. if cl_id c = changelistID
                  then c\<lparr>cl_status := ''rejected'', cl_modified_at := now env,
                         cl_modified_by := approverID\<rparr>
                  else c) (changelists db)"
    by (simp add: db1_def SetStatus_def)
  have part1: "deleteOk env \<longrightarrow>
      fst (revokeApproval env changelistID approverID db) = Success True
    \<and> approvals (snd (revokeApproval env changelistID approverID db))
        = filter (\<lambda>a. ap_changelist_id a \<noteq> changelistID) (approvals db)
    \<and> (\<forall>a \<in> set (approvals (snd (revokeApproval env changelistID approverID db))).
          ap_changelist_id a \<noteq> changelistID \<and> a \<in> set (approvals db))"
    using del unfolding run by simp
  have part2: "setStatusOk env \<longrightarrow>
      (\<forall>c \<in> set (changelists (snd (revokeApproval env changelistID approverID db))).
          cl_id c = changelistID \<longrightarrow> cl_status c = ''rejected'')
    \<and> map cl_id (changelists (snd (revokeApproval env changelistID approverID db)))
        = map cl_id (changelists db)"
  proof
    assume ok: "setStatusOk env"
    have ids: "map cl_id (changelists db1) = map cl_id (changelists db)"
      unfolding st [OF ok] by (rule status_update_keeps_ids)
    have rej: "\<forall>c \<in> set (changelists db1). cl_id c = changelistID \<longrightarrow> cl_status c = ''rejected''"
      unfolding st [OF ok] using status_update_sets_status by blast
    from ids rej show "(\<forall>c \<in> set (changelists (snd (revokeApproval env changelistID approverID db))).
          cl_id c = changelistID \<longrightarrow> cl_status c = ''rejected'')
    \<and> map cl_id (changelists (snd (revokeApproval env changelistID approverID db)))
        = map cl_id (changelists db)"
      unfolding run cl2 by simp
  qed
  from part1 part2 show ?thesis by (rule conjI)
qed

theorem revokeApproval_deletes_and_rejects_witness:
  "approvals (snd (revokeApproval answering ''5'' ''u9'' two_changelists))
     = [\<lparr>ap_id = ''2'', ap_changelist_id = ''6'', ap_approved_by = ''u2''\<rparr>]
   \<and> map cl_status (changelists (snd (revokeApproval answering ''5'' ''u9'' two_changelists)))
     = [''rejected'', ''approved'']"
proof -
  have d: "deleteOk answering" and s: "setStatusOk answering"
    by (simp_all add: answering_def)
  have st: "map cl_status (changelists (snd (revokeApproval answering ''5'' ''u9'' two_changelists)))
     = [''rejected'', ''approved'']"
    by (simp add: revokeApproval_def DeleteByChangelist_def SetStatus_def answering_def
        two_changelists_def)
  from revokeApproval_deletes_and_rejects [of answering "''5''" "''u9''" two_changelists] d s st
  show ?thesis by (simp add: two_changelists_def)
qed

end
